theory Spec2Isabelle
  imports Main
begin

section \<open>Data model of the ABI checker (abichecker/abichecker.py)\<close>

text \<open>
  \<^verbatim>\<open>MR = namedtuple('MatchRepo', ('srcrepo', 'dstrepo', 'arch'))\<close>: one comparable
  (source repository, destination repository, architecture) triple.
\<close>

datatype MR = MR (srcrepo: string) (dstrepo: string) (arch: string)

text \<open>
  The source info of a package revision, as \<^verbatim>\<open>get_sourceinfo\<close> of the review bot
  returns it. The checker reads the fields \<^verbatim>\<open>package\<close> and \<^verbatim>\<open>verifymd5\<close>.
\<close>

record SourceInfo =
  project :: string
  package :: string
  srcmd5 :: string
  verifymd5 :: string

text \<open>
  The exception classes of the module, each with the arguments of its constructor, and the
  exceptions of the language that the modelled code can raise and nothing catches before
  \<^verbatim>\<open>check_one_request\<close>.
\<close>

datatype error =
    DistUrlMismatch string
  | SourceBroken string string
  | NoBuildSuccess string string string
  | NotReadyYet string string string
  | MissingDebugInfo string
  | FetchError string
  | MaintenanceError string
  | TypeError
  | KeyError string
  | UnboundLocalError string

text \<open>\<^verbatim>\<open>__str__\<close> of the exception classes: the message each constructor builds.\<close>

fun str_of_error :: "error \<Rightarrow> string" where
  "str_of_error (DistUrlMismatch msg) = msg"
| "str_of_error (SourceBroken prj pkg) = prj @ ''/'' @ pkg @ '' has broken sources, needs rebase''"
| "str_of_error (NoBuildSuccess prj pkg md5) =
     prj @ ''/'' @ pkg @ ''('' @ md5 @ '') had no successful build''"
| "str_of_error (NotReadyYet prj pkg reason) =
     prj @ ''/'' @ pkg @ '' not ready yet: '' @ reason"
| "str_of_error (MissingDebugInfo msg) = msg"
| "str_of_error (FetchError msg) = msg"
| "str_of_error (MaintenanceError msg) = msg"
| "str_of_error TypeError = ''TypeError''"
| "str_of_error (KeyError k) = k"
| "str_of_error (UnboundLocalError v) = v"

text \<open>
  The logger. Records of level INFO and above are what the \<^verbatim>\<open>LogToDB\<close> filter stores;
  \<^verbatim>\<open>logger.debug\<close> calls leave no record and are not modelled. Every modelled function
  takes the log written so far and returns it extended, also when it raises.
\<close>

datatype level = INFO | WARNING | ERROR

type_synonym logrec = "level \<times> string"

text \<open>
  A Python \<^verbatim>\<open>set\<close> is modelled by the duplicate-free list of its elements in the order
  in which a loop over the set visits them; \<^verbatim>\<open>set.add\<close> keeps an element that is
  already there. CPython fixes the order of a set of strings only per process (string
  hashes are seeded), so the functions that loop over a set are stated for an arbitrary
  list, and the results that are sets are compared as sets.
\<close>

definition set_add :: "'a \<Rightarrow> 'a list \<Rightarrow> 'a list" where
  "set_add x xs = (if x \<in> set xs then xs else xs @ [x])"

section \<open>Repository matching: \<^verbatim>\<open>ensure_settled\<close> and \<^verbatim>\<open>findrepos\<close>\<close>

text \<open>
  One dictionary of \<^verbatim>\<open>osc.core.result_xml_to_dicts\<close>: the keys the checker reads.
  \<^verbatim>\<open>res_package = None\<close> stands for a dictionary without the key \<^verbatim>\<open>package\<close>.
\<close>

record res =
  res_package :: "string option"
  res_repository :: string
  res_arch :: string
  res_dirty :: bool
  res_code :: string

text \<open>
  A \<^verbatim>\<open>repository\<close> element of a project's \<^verbatim>\<open>_meta\<close>: its name, its \<^verbatim>\<open>path\<close>
  children as (project, repository) and the texts of its \<^verbatim>\<open>arch\<close> children.
\<close>

record repository =
  repo_name :: string
  repo_paths :: "(string \<times> string) list"
  repo_archs :: "string list"

text \<open>
  The build service as the matcher queries it. Every field is the answer of one call of the
  source: \<^verbatim>\<open>get_dstrepos(project)\<close> (a set of (repository, arch), or None),
  the parsed \<^verbatim>\<open>_meta\<close> of a project (None for an HTTPError),
  \<^verbatim>\<open>osc.core.get_package_results\<close> flattened through \<^verbatim>\<open>result_xml_to_dicts\<close>,
  \<^verbatim>\<open>get_buildsuccess_repos(src_project, tgt_project, src_package, rev)\<close>,
  \<^verbatim>\<open>self.current_request.staging_project\<close>, and the methods of the review bot
  \<^verbatim>\<open>has_staging(project)\<close>, \<^verbatim>\<open>get_sourceinfo(project, package, rev)\<close>,
  \<^verbatim>\<open>get_originproject(project, package)\<close> and \<^verbatim>\<open>_get_linktarget(project, package)\<close>.
  For \<^verbatim>\<open>_maintenance_hack\<close>, \<^verbatim>\<open>maintenance_search\<close> is the name of the first
  project the search for the maintenance project of a project finds (None when it finds
  none) and \<^verbatim>\<open>build_codes\<close> are the \<^verbatim>\<open>code\<close> attributes of the \<^verbatim>\<open>status\<close> nodes
  of a package's build result. The answers are functions of the arguments of the call.
\<close>

record obs =
  get_dstrepos :: "string \<Rightarrow> (string \<times> string) list option"
  project_meta :: "string \<Rightarrow> repository list option"
  get_package_results :: "string \<Rightarrow> string \<Rightarrow> string list \<Rightarrow> string list \<Rightarrow> res list"
  get_buildsuccess_repos :: "string \<Rightarrow> string \<Rightarrow> string \<Rightarrow> string \<Rightarrow> (string \<times> string) list option"
  staging_project :: "string option"
  has_staging :: "string \<Rightarrow> bool"
  get_sourceinfo :: "string \<Rightarrow> string \<Rightarrow> string option \<Rightarrow> SourceInfo option"
  maintenance_search :: "string \<Rightarrow> string option"
  get_originproject :: "string \<Rightarrow> string \<Rightarrow> string option"
  build_codes :: "string \<Rightarrow> string \<Rightarrow> string option list"
  get_linktarget :: "string \<Rightarrow> string \<Rightarrow> string option \<times> string option"

text \<open>
  \<^verbatim>\<open>rmap\<close> of \<^verbatim>\<open>ensure_settled\<close>: the dictionaries of the package, keyed by
  (repository, arch); a later dictionary overwrites an earlier one with the same key.
\<close>

definition build_rmap :: "string \<Rightarrow> res list \<Rightarrow> (string \<times> string) \<rightharpoonup> res" where
  "build_rmap pkg results =
     foldl (\<lambda>rmap r.
              if res_package r \<noteq> Some pkg then rmap
              else rmap((res_repository r, res_arch r) \<mapsto> r))
       Map.empty results"

text \<open>The loop \<^verbatim>\<open>for mr in matchrepos\<close> of \<^verbatim>\<open>ensure_settled\<close>: the first raise ends it.\<close>

fun settled_loop ::
  "string \<Rightarrow> string \<Rightarrow> ((string \<times> string) \<rightharpoonup> res) \<Rightarrow> MR list \<Rightarrow> logrec list
     \<Rightarrow> (error + unit) \<times> logrec list" where
  "settled_loop src_project pkg rmap [] lg = (Inr (), lg)"
| "settled_loop src_project pkg rmap (mr # mrs) lg =
     (case rmap (srcrepo mr, arch mr) of
        None \<Rightarrow>
          (Inl (NotReadyYet src_project pkg ''no result''),
           lg @ [(WARNING, srcrepo mr @ ''/'' @ arch mr @ '' had no build success'')])
      | Some r \<Rightarrow>
          if res_dirty r then
            (Inl (NotReadyYet src_project pkg ''dirty''),
             lg @ [(WARNING, srcrepo mr @ ''/'' @ arch mr @ '' dirty'')])
          else if res_code r = ''broken'' then
            (Inl (SourceBroken src_project pkg), lg)
          else if res_code r \<notin> set [''succeeded'', ''locked'', ''excluded''] then
            (Inl (NotReadyYet src_project pkg (res_code r)),
             lg @ [(WARNING, srcrepo mr @ ''/'' @ arch mr @ '' not succeeded ('' @ res_code r @ '')'')])
          else settled_loop src_project pkg rmap mrs lg)"

definition ensure_settled ::
  "obs \<Rightarrow> string \<Rightarrow> SourceInfo \<Rightarrow> MR list \<Rightarrow> logrec list \<Rightarrow> (error + unit) \<times> logrec list" where
  "ensure_settled api src_project src_srcinfo matchrepos lg =
     (let results = get_package_results api src_project (package src_srcinfo)
                      (map srcrepo matchrepos) (map arch matchrepos);
          rmap = build_rmap (package src_srcinfo) results
      in settled_loop src_project (package src_srcinfo) rmap matchrepos lg)"

text \<open>
  The loops of \<^verbatim>\<open>findrepos\<close> that fill \<^verbatim>\<open>matchrepos\<close>. Their state is the set built
  so far and the function's local variable \<^verbatim>\<open>arch\<close> (None while it is unbound), which
  keeps the text of the last \<^verbatim>\<open>arch\<close> node visited when the loops are over.
\<close>

fun staging_archs :: "string list \<Rightarrow> MR list \<times> string option \<Rightarrow> MR list \<times> string option" where
  "staging_archs [] st = st"
| "staging_archs (a # archs) (matchrepos, _) =
     staging_archs archs (set_add (MR ''standard'' ''standard'' a) matchrepos, Some a)"

fun match_archs ::
  "string \<Rightarrow> string \<Rightarrow> string \<Rightarrow> (string \<times> string) list \<Rightarrow> string list
     \<Rightarrow> MR list \<times> string option \<Rightarrow> MR list \<times> string option" where
  "match_archs name prj pathrepo dstrepos [] st = st"
| "match_archs name prj pathrepo dstrepos (a # archs) (matchrepos, _) =
     (let dstname = (if prj = ''openSUSE:Factory'' \<and> pathrepo = ''snapshot''
                     then ''standard'' else pathrepo)
      in match_archs name prj pathrepo dstrepos archs
           (if (dstname, a) \<in> set dstrepos then set_add (MR name dstname a) matchrepos
            else matchrepos,
            Some a))"

fun match_repos ::
  "string \<Rightarrow> (string \<times> string) list \<Rightarrow> repository list
     \<Rightarrow> (MR list \<times> string option) \<times> logrec list \<Rightarrow> (MR list \<times> string option) \<times> logrec list" where
  "match_repos dst_project dstrepos [] st = st"
| "match_repos dst_project dstrepos (repo # repos) (st, lg) =
     (case repo_paths repo of
        [(pathprj, pathrepo)] \<Rightarrow>
          (let prj = (if pathprj = ''openSUSE:Tumbleweed'' then ''openSUSE:Factory'' else pathprj)
           in if prj \<noteq> dst_project then match_repos dst_project dstrepos repos (st, lg)
              else match_repos dst_project dstrepos repos
                     (match_archs (repo_name repo) prj pathrepo dstrepos (repo_archs repo) st, lg))
      | _ \<Rightarrow>
          match_repos dst_project dstrepos repos
            (st, lg @ [(ERROR, ''repo '' @ repo_name repo @ '' has more than one path'')]))"

text \<open>
  The last loop of \<^verbatim>\<open>findrepos\<close>, \<^verbatim>\<open>for mr in matchrepos\<close>: it looks up
  \<^verbatim>\<open>(mr.srcrepo, arch)\<close> in \<^verbatim>\<open>srcrepos\<close>, where \<^verbatim>\<open>arch\<close> is the local variable
  the loops above left behind, not \<^verbatim>\<open>mr.arch\<close>.
\<close>

fun success_loop ::
  "string \<Rightarrow> SourceInfo \<Rightarrow> (string \<times> string) list \<Rightarrow> string option \<Rightarrow> MR list \<Rightarrow> logrec list
     \<Rightarrow> (error + unit) \<times> logrec list" where
  "success_loop src_project src_srcinfo srcrepos arch_var [] lg = (Inr (), lg)"
| "success_loop src_project src_srcinfo srcrepos arch_var (mr # mrs) lg =
     (case arch_var of
        None \<Rightarrow> (Inl (UnboundLocalError ''arch''), lg)
      | Some a \<Rightarrow>
          if (srcrepo mr, a) \<notin> set srcrepos then
            (Inl (NoBuildSuccess src_project (package src_srcinfo) (verifymd5 src_srcinfo)),
             lg @ [(ERROR, srcrepo mr @ ''/'' @ a @ '' had no build success'')])
          else success_loop src_project src_srcinfo srcrepos arch_var mrs lg)"

text \<open>
  \<^verbatim>\<open>findrepos\<close>. The result is \<^verbatim>\<open>Inr None\<close> where the source returns None,
  \<^verbatim>\<open>Inr (Some matchrepos)\<close> where it returns the set, and \<^verbatim>\<open>Inl e\<close> where it raises.
  \<^verbatim>\<open>if self.current_request.staging_project\<close> holds for a string that is not empty.
\<close>

definition findrepos ::
  "obs \<Rightarrow> string \<Rightarrow> SourceInfo \<Rightarrow> string \<Rightarrow> SourceInfo \<Rightarrow> logrec list
     \<Rightarrow> (error + MR list option) \<times> logrec list" where
  "findrepos api src_project src_srcinfo dst_project dst_srcinfo lg =
     (case get_dstrepos api dst_project of
        None \<Rightarrow> (Inr None, lg)
      | Some dstrepos \<Rightarrow>
          (case project_meta api src_project of
             None \<Rightarrow> (Inr None, lg)
           | Some root \<Rightarrow>
               (let ((matchrepos, arch_var), lg1) =
                      (if staging_project api \<noteq> None \<and> staging_project api \<noteq> Some []
                       then (staging_archs
                               (concat (map repo_archs
                                  (filter (\<lambda>repo. repo_name repo = ''standard'') root)))
                               ([], None), lg)
                       else match_repos dst_project dstrepos root (([], None), lg))
                in if matchrepos = [] then (Inr None, lg1)
                   else
                     (case ensure_settled api src_project src_srcinfo matchrepos lg1 of
                        (Inl e, lg2) \<Rightarrow> (Inl e, lg2)
                      | (Inr _, lg2) \<Rightarrow>
                          (case get_buildsuccess_repos api src_project dst_project
                                  (package src_srcinfo) (verifymd5 src_srcinfo) of
                             None \<Rightarrow>
                               (Inl (NotReadyYet src_project (package src_srcinfo)
                                       ''no build success''), lg2)
                           | Some srcrepos \<Rightarrow>
                               if srcrepos = [] then
                                 (Inl (NoBuildSuccess src_project (package src_srcinfo)
                                         (verifymd5 src_srcinfo)), lg2)
                               else
                                 (case success_loop src_project src_srcinfo srcrepos arch_var
                                         matchrepos lg2 of
                                    (Inl e, lg3) \<Rightarrow> (Inl e, lg3)
                                  | (Inr _, lg3) \<Rightarrow> (Inr (Some matchrepos), lg3)))))))"

section \<open>Strings and paths\<close>

definition nl :: string where
  "nl = [CHR 0x0A]"

text \<open>\<^verbatim>\<open>'%s' % x\<close> for a value that may be None.\<close>

definition py_str :: "string option \<Rightarrow> string" where
  "py_str x = (case x of None \<Rightarrow> ''None'' | Some s \<Rightarrow> s)"

text \<open>\<^verbatim>\<open>os.path.basename\<close> and \<^verbatim>\<open>os.path.join\<close> (posixpath).\<close>

definition basename :: "string \<Rightarrow> string" where
  "basename p = rev (takeWhile (\<lambda>c. c \<noteq> CHR ''/'') (rev p))"

definition path_join2 :: "string \<Rightarrow> string \<Rightarrow> string" where
  "path_join2 path b =
     (if b \<noteq> [] \<and> hd b = CHR ''/'' then b
      else if path = [] \<or> last path = CHR ''/'' then path @ b
      else path @ ''/'' @ b)"

definition path_join :: "string \<Rightarrow> string list \<Rightarrow> string" where
  "path_join a p = foldl path_join2 a p"

definition strip_prefix :: "string \<Rightarrow> string \<Rightarrow> string option" where
  "strip_prefix p s = (if take (length p) s = p then Some (drop (length p) s) else None)"

text \<open>
  \<^verbatim>\<open>so_re.match(fn)\<close> for
  \<^verbatim>\<open>so_re = re.compile(r'^(?:/usr)?/lib(?:64)?/lib([^/]+)\.so(?:\.[^/]+)?')\<close>: None when
  the name does not match, and group 1 when it does. After the directory, group 1 and
  \<^verbatim>\<open>.so\<close> lie in one path segment, and the greedy group ends at the last \<^verbatim>\<open>.so\<close> of the
  segment that leaves it one character at least.
\<close>

definition so_re_match :: "string \<Rightarrow> string option" where
  "so_re_match fn =
     (let s1 = (case strip_prefix ''/usr'' fn of Some r \<Rightarrow> r | None \<Rightarrow> fn) in
      case strip_prefix ''/lib'' s1 of
        None \<Rightarrow> None
      | Some s2 \<Rightarrow>
          (let s3 = (case strip_prefix ''64'' s2 of Some r \<Rightarrow> r | None \<Rightarrow> s2) in
           case strip_prefix ''/lib'' s3 of
             None \<Rightarrow> None
           | Some s4 \<Rightarrow>
               (let seg = takeWhile (\<lambda>c. c \<noteq> CHR ''/'') s4 in
                case filter (\<lambda>i. take 3 (drop i seg) = ''.so'') (rev [1..<length seg]) of
                  [] \<Rightarrow> None
                | i # _ \<Rightarrow> Some (take i seg))))"

text \<open>\<^verbatim>\<open>'%08x' % n\<close> for a time stamp \<^verbatim>\<open>n = int(time.time())\<close>, which is not negative.\<close>

fun hex_of_nat :: "nat \<Rightarrow> string" where
  "hex_of_nat n =
     (if n < 16 then [''0123456789abcdef'' ! n]
      else hex_of_nat (n div 16) @ [''0123456789abcdef'' ! (n mod 16)])"

definition hex08 :: "nat \<Rightarrow> string" where
  "hex08 n = (let s = hex_of_nat n in replicate (8 - length s) CHR ''0'' @ s)"

text \<open>
  \<^verbatim>\<open>re.compile(r'.*\.(\d+)$').match(linkpkg)\<close> of \<^verbatim>\<open>_maintenance_hack\<close>: group 1, the
  digits after the last dot, when the package name ends with a dot and digits. \<^verbatim>\<open>$\<close>
  also matches before a newline that ends the string, and \<^verbatim>\<open>.\<close> matches no newline.
  Package names are taken to be ASCII, so \<^verbatim>\<open>\d\<close> is one of \<^verbatim>\<open>0\<close> to \<^verbatim>\<open>9\<close>.
\<close>

definition is_digit :: "char \<Rightarrow> bool" where
  "is_digit c = (c \<in> set ''0123456789'')"

definition incident_of :: "string \<Rightarrow> string option" where
  "incident_of linkpkg =
     (let t = (if linkpkg \<noteq> [] \<and> last linkpkg = CHR 0x0A then butlast linkpkg else linkpkg);
          digits = rev (takeWhile is_digit (rev t));
          before = take (length t - length digits) t
      in if digits \<noteq> [] \<and> before \<noteq> [] \<and> last before = CHR ''.''
            \<and> CHR 0x0A \<notin> set (butlast before)
         then Some digits else None)"

definition incident_pattern :: string where
  "incident_pattern = ''.*'' @ [CHR 0x5C] @ ''.('' @ [CHR 0x5C] @ ''d+)$''"

section \<open>Reports and the state of the bot\<close>

text \<open>
  \<^verbatim>\<open>LibResult\<close> and \<^verbatim>\<open>Report\<close>, the two named tuples of the module. The fields carry
  the prefixes \<^verbatim>\<open>lib_\<close> and \<^verbatim>\<open>rep_\<close> here, since \<^verbatim>\<open>result\<close> and \<^verbatim>\<open>reports\<close> name
  fields of both and \<^verbatim>\<open>src_project\<close> and the like name variables of the functions too.
\<close>

datatype LibResult = LibResult
  (lib_src_repo: string) (lib_src_lib: string) (lib_dst_repo: string) (lib_dst_lib: string)
  (lib_arch: string) (lib_htmlreport: string) (lib_result: bool)

datatype Report = Report
  (rep_src_project: string) (rep_src_package: string) (rep_src_rev: "string option")
  (rep_dst_project: string) (rep_dst_package: string)
  (rep_reports: "LibResult list") (rep_result: "bool option")

text \<open>
  The attributes of the bot that the checker writes: \<^verbatim>\<open>self.reports\<close>,
  \<^verbatim>\<open>self.text_summary\<close> and what it logged.
\<close>

record bot =
  reports :: "Report list"
  text_summary :: string
  logged :: "logrec list"

text \<open>
  The local variables of \<^verbatim>\<open>check_source_submission\<close> that its loops update: the return
  value \<^verbatim>\<open>ret\<close> (True accepts, False declines, None looks again later), the result of
  the report \<^verbatim>\<open>overall\<close>, \<^verbatim>\<open>libresults\<close> and \<^verbatim>\<open>missing_debuginfo\<close>.
\<close>

record locals =
  ret :: "bool option"
  overall :: "bool option"
  libresults :: "LibResult list"
  missing_debuginfo :: "string list"

text \<open>
  The machine the bot runs on: \<^verbatim>\<open>CACHEDIR\<close> of \<^verbatim>\<open>abichecker_common\<close>, the result of
  \<^verbatim>\<open>self.extract(project, package, srcinfo, repo, arch)\<close> (the pair \<^verbatim>\<open>(liblist, debuglist)\<close>,
  None for \<^verbatim>\<open>(None, None)\<close>, or the exception it raises), the exit status of a
  subprocess given its command line, and \<^verbatim>\<open>int(time.time())\<close> when a pair of libraries
  of a matched triple is compared. A dictionary is the list of its items in the order of
  its keys; the set of aliases of a library is a list.
\<close>

type_synonym libs = "(string \<times> string list) list"
type_synonym debugs = "(string \<times> string) list"

record tools =
  cachedir :: string
  extract_libs :: "string \<Rightarrow> string \<Rightarrow> SourceInfo \<Rightarrow> string \<Rightarrow> string \<Rightarrow> error + (libs \<times> debugs) option"
  popen_wait :: "string list \<Rightarrow> int"
  clock :: "MR \<Rightarrow> string \<Rightarrow> string \<Rightarrow> nat"

section \<open>The external tools\<close>

text \<open>
  \<^verbatim>\<open>run_abi_checker\<close> and \<^verbatim>\<open>run_abi_dumper\<close>: the value returned and the records
  logged.
\<close>

definition checker_cmd :: "string \<Rightarrow> string \<Rightarrow> string \<Rightarrow> string \<Rightarrow> string list" where
  "checker_cmd libname old new output =
     [''abi-compliance-checker'', ''-lib'', libname, ''-old'', old, ''-new'', new,
      ''-report-path'', output]"

definition run_abi_checker ::
  "tools \<Rightarrow> string \<Rightarrow> string \<Rightarrow> string \<Rightarrow> string \<Rightarrow> bool option \<times> logrec list" where
  "run_abi_checker t libname old new output =
     (let cmd = checker_cmd libname old new output;
          r = popen_wait t cmd
      in if r \<notin> set [0, 1] then (None, [(ERROR, ''abi-compliance-checker failed'')])
         else (Some (r = 0), []))"

definition dumper_cmd :: "string \<Rightarrow> string \<Rightarrow> string \<Rightarrow> string \<Rightarrow> string list" where
  "dumper_cmd output base filename debuglib =
     [''abi-dumper'', ''-o'', output, ''-lver'', basename filename, base @ ''/'' @ filename]
       @ [base @ ''/'' @ debuglib]"

definition run_abi_dumper ::
  "tools \<Rightarrow> string \<Rightarrow> string \<Rightarrow> string \<Rightarrow> string \<Rightarrow> bool \<times> logrec list" where
  "run_abi_dumper t output base filename debuglib =
     (let cmd = dumper_cmd output base filename debuglib;
          r = popen_wait t cmd
      in if r \<noteq> 0 then (False, [(ERROR, ''failed to dump '' @ filename @ ''!'')])
         else (True, []))"

section \<open>Pairing the libraries\<close>

text \<open>
  The reverse index of the aliases of the source libraries,
  \<^verbatim>\<open>src_aliases.setdefault(a, set()).add(lib)\<close> for every alias \<^verbatim>\<open>a\<close> of every
  library \<^verbatim>\<open>lib\<close>.
\<close>

definition add_alias :: "string \<Rightarrow> (string \<rightharpoonup> string list) \<Rightarrow> string \<Rightarrow> (string \<rightharpoonup> string list)" where
  "add_alias lib src_aliases a =
     src_aliases(a \<mapsto> set_add lib (case src_aliases a of None \<Rightarrow> [] | Some ls \<Rightarrow> ls))"

definition lib_aliases :: "libs \<Rightarrow> string \<Rightarrow> string list" where
  "lib_aliases ls lib = (case map_of ls lib of None \<Rightarrow> [] | Some as \<Rightarrow> as)"

definition reverse_index :: "libs \<Rightarrow> (string \<rightharpoonup> string list)" where
  "reverse_index src_libs =
     foldl (\<lambda>src_aliases lib. foldl (add_alias lib) src_aliases (lib_aliases src_libs lib))
       Map.empty (map fst src_libs)"

text \<open>
  The loop over \<^verbatim>\<open>dst_libs.keys()\<close> that fills \<^verbatim>\<open>pairs\<close>: a library of the
  destination that the source has under the same path is paired with itself; otherwise
  every alias of the destination library is looked up in the reverse index, and a library
  for which that finds nothing adds a warning to the summary.
\<close>

definition pair_alias ::
  "string \<Rightarrow> (string \<rightharpoonup> string list) \<Rightarrow> (string \<times> string) list \<times> bool \<Rightarrow> string
     \<Rightarrow> (string \<times> string) list \<times> bool" where
  "pair_alias lib src_aliases st a =
     (case src_aliases a of
        None \<Rightarrow> st
      | Some ls \<Rightarrow> foldl (\<lambda>(pairs, found) l. (set_add (lib, l) pairs, True)) st ls)"

definition pair_lib ::
  "libs \<Rightarrow> libs \<Rightarrow> (string \<rightharpoonup> string list) \<Rightarrow> (string \<times> string) list \<times> string \<Rightarrow> string
     \<Rightarrow> (string \<times> string) list \<times> string" where
  "pair_lib dst_libs src_libs src_aliases st lib =
     (let (pairs, summary) = st in
      if lib \<in> set (map fst src_libs) then (set_add (lib, lib) pairs, summary)
      else
        (let (pairs', found) =
               foldl (pair_alias lib src_aliases) (pairs, False) (lib_aliases dst_libs lib)
         in (pairs',
             if found = False
             then summary @ ''*Warning*: '' @ lib @ '' no longer packaged'' @ nl @ nl
             else summary)))"

definition pair_libs :: "libs \<Rightarrow> libs \<Rightarrow> string \<Rightarrow> (string \<times> string) list \<times> string" where
  "pair_libs dst_libs src_libs summary =
     foldl (pair_lib dst_libs src_libs (reverse_index src_libs)) ([], summary) (map fst dst_libs)"

section \<open>Comparing the pairs of one matched triple\<close>

text \<open>The \<^verbatim>\<open>else\<close> branch of the comparison of a pair: the tools could not be run.\<close>

definition compare_failed :: "string \<Rightarrow> string \<Rightarrow> bot \<times> locals \<Rightarrow> bot \<times> locals" where
  "compare_failed old new st =
     (let (b, l) = st in
      (b\<lparr>logged := logged b @ [(ERROR, ''failed to compare '' @ old @ '' <> '' @ new)],
         text_summary := text_summary b @ ''**Error**: ABI check failed on '' @ old @ '' vs ''
                           @ new @ nl @ nl\<rparr>,
       l\<lparr>ret := (if ret l = Some True then None else ret l)\<rparr>))"

text \<open>
  The paths and the name of the report that the body of \<^verbatim>\<open>for old, new in pairs\<close>
  computes: \<^verbatim>\<open>os.path.join(UNPACKDIR, project, package, repo, arch)\<close> with
  \<^verbatim>\<open>UNPACKDIR = os.path.join(CACHEDIR, 'unpacked')\<close>, the two dump files and
  \<^verbatim>\<open>htmlreport\<close>.
\<close>

definition unpack_base :: "tools \<Rightarrow> string \<Rightarrow> string \<Rightarrow> string \<Rightarrow> string \<Rightarrow> string" where
  "unpack_base t prj pkg repo a =
     path_join (path_join (cachedir t) [''unpacked'']) [prj, pkg, repo, a]"

definition old_dump :: "tools \<Rightarrow> string" where
  "old_dump t = path_join (cachedir t) [''old.dump'']"

definition new_dump :: "tools \<Rightarrow> string" where
  "new_dump t = path_join (cachedir t) [''new.dump'']"

definition htmlreport_name :: "tools \<Rightarrow> MR \<Rightarrow> string \<Rightarrow> string \<Rightarrow> string" where
  "htmlreport_name t mr old new =
     ''report-'' @ srcrepo mr @ ''-'' @ basename old @ ''-'' @ dstrepo mr @ ''-'' @ basename new
       @ ''-'' @ arch mr @ ''-'' @ hex08 (clock t mr old new) @ ''.html''"

text \<open>
  The body of \<^verbatim>\<open>for old, new in pairs\<close>. The condition
  \<^verbatim>\<open>m and run_abi_dumper(...) and run_abi_dumper(...)\<close> is evaluated from the left and
  stops at the first part that fails; \<^verbatim>\<open>dst_libdebug[old]\<close> and \<^verbatim>\<open>src_libdebug[new]\<close>
  raise KeyError for a library without an entry. The first component of the result is the
  exception that leaves the loop, if any. Removing the dump files has no part in the model.
\<close>

definition diff_pair ::
  "tools \<Rightarrow> string \<Rightarrow> string \<Rightarrow> string \<Rightarrow> string \<Rightarrow> MR \<Rightarrow> debugs \<Rightarrow> debugs
     \<Rightarrow> bot \<times> locals \<Rightarrow> string \<times> string \<Rightarrow> error option \<times> bot \<times> locals" where
  "diff_pair t src_project src_package dst_project dst_package mr dst_libdebug src_libdebug st pair =
     (let (b, l) = st; (old, new) = pair;
          old_base = unpack_base t dst_project dst_package (dstrepo mr) (arch mr);
          new_base = unpack_base t src_project src_package (srcrepo mr) (arch mr);
          htmlreport = htmlreport_name t mr old new
      in case so_re_match old of
           None \<Rightarrow> (None, compare_failed old new (b, l))
         | Some libname \<Rightarrow>
             (case map_of dst_libdebug old of
                None \<Rightarrow> (Some (KeyError old), (b, l))
              | Some old_debug \<Rightarrow>
                  (let (ok1, lg1) = run_abi_dumper t (old_dump t) old_base old old_debug;
                       b1 = b\<lparr>logged := logged b @ lg1\<rparr>
                   in if \<not> ok1 then (None, compare_failed old new (b1, l))
                      else
                        (case map_of src_libdebug new of
                           None \<Rightarrow> (Some (KeyError new), (b1, l))
                         | Some new_debug \<Rightarrow>
                             (let (ok2, lg2) = run_abi_dumper t (new_dump t) new_base new new_debug;
                                  b2 = b1\<lparr>logged := logged b1 @ lg2\<rparr>
                              in if \<not> ok2 then (None, compare_failed old new (b2, l))
                                 else
                                   (let reportfn = path_join (cachedir t) [htmlreport];
                                        (r, lg3) = run_abi_checker t libname (old_dump t) (new_dump t)
                                                     reportfn;
                                        b3 = b2\<lparr>logged := logged b2 @ lg3\<rparr>
                                    in case r of
                                         None \<Rightarrow> (None, (b3, l))
                                       | Some r \<Rightarrow>
                                           (None,
                                            (b3,
                                             l\<lparr>libresults := libresults l @
                                                  [LibResult (srcrepo mr) (basename old) (dstrepo mr)
                                                     (basename new) (arch mr) htmlreport r],
                                               overall :=
                                                 (if overall l = None then Some r
                                                  else if overall l = Some True \<and> r = False then Some r
                                                  else overall l)\<rparr>))))))))"

fun diff_pairs ::
  "tools \<Rightarrow> string \<Rightarrow> string \<Rightarrow> string \<Rightarrow> string \<Rightarrow> MR \<Rightarrow> debugs \<Rightarrow> debugs
     \<Rightarrow> bot \<times> locals \<Rightarrow> (string \<times> string) list \<Rightarrow> error option \<times> bot \<times> locals" where
  "diff_pairs t src_project src_package dst_project dst_package mr dst_libdebug src_libdebug st [] =
     (None, st)"
| "diff_pairs t src_project src_package dst_project dst_package mr dst_libdebug src_libdebug st
     (pair # pairs) =
     (case diff_pair t src_project src_package dst_project dst_package mr dst_libdebug src_libdebug
             st pair of
        (Some e, st') \<Rightarrow> (Some e, st')
      | (None, st') \<Rightarrow>
          diff_pairs t src_project src_package dst_project dst_package mr dst_libdebug src_libdebug
            st' pairs)"

section \<open>One matched triple\<close>

text \<open>
  The \<^verbatim>\<open>except\<close> clauses around a call of \<^verbatim>\<open>extract\<close>: DistUrlMismatch and FetchError
  turn a return value True into None, MissingDebugInfo sets it to False and keeps the
  message; each goes on with the next triple. Any other exception leaves the function.
  \<^verbatim>\<open>what\<close> names the project, package, repository and architecture in the log.
\<close>

definition extract_failed :: "string \<Rightarrow> error \<Rightarrow> bot \<times> locals \<Rightarrow> error option \<times> bot \<times> locals" where
  "extract_failed what e st =
     (let (b, l) = st in
      case e of
        DistUrlMismatch m \<Rightarrow>
          (None, (b\<lparr>logged := logged b @ [(ERROR, what @ '': '' @ str_of_error e)]\<rparr>,
                  l\<lparr>ret := (if ret l = Some True then None else ret l)\<rparr>))
      | MissingDebugInfo m \<Rightarrow>
          (None, (b, l\<lparr>missing_debuginfo := missing_debuginfo l @ [str_of_error e],
                        ret := Some False\<rparr>))
      | FetchError m \<Rightarrow>
          (None, (b\<lparr>logged := logged b @ [(ERROR, str_of_error e)]\<rparr>,
                  l\<lparr>ret := (if ret l = Some True then None else ret l)\<rparr>))
      | _ \<Rightarrow> (Some e, (b, l)))"

text \<open>The body of \<^verbatim>\<open>for mr in myrepos\<close>.\<close>

definition process_repo ::
  "tools \<Rightarrow> string \<Rightarrow> string \<Rightarrow> SourceInfo \<Rightarrow> string \<Rightarrow> string \<Rightarrow> SourceInfo
     \<Rightarrow> bot \<times> locals \<Rightarrow> MR \<Rightarrow> error option \<times> bot \<times> locals" where
  "process_repo t src_project src_package src_srcinfo dst_project dst_package dst_srcinfo st mr =
     (case extract_libs t dst_project dst_package dst_srcinfo (dstrepo mr) (arch mr) of
        Inl e \<Rightarrow>
          extract_failed (dst_project @ ''/'' @ dst_package @ '' '' @ dstrepo mr @ ''/'' @ arch mr) e st
      | Inr None \<Rightarrow> (None, st)
      | Inr (Some (dst_libs, dst_libdebug)) \<Rightarrow>
          (case extract_libs t src_project src_package src_srcinfo (srcrepo mr) (arch mr) of
             Inl e \<Rightarrow>
               extract_failed
                 (src_project @ ''/'' @ src_package @ '' '' @ srcrepo mr @ ''/'' @ arch mr) e st
           | Inr None \<Rightarrow>
               (let (b, l) = st in
                (None,
                 (if dst_libs \<noteq> [] then
                    b\<lparr>text_summary := text_summary b
                        @ ''*Warning*: the submission does not contain any libs anymore'' @ nl @ nl\<rparr>
                  else b, l)))
           | Inr (Some (src_libs, src_libdebug)) \<Rightarrow>
               (let (b, l) = st;
                    (pairs, summary) = pair_libs dst_libs src_libs (text_summary b)
                in diff_pairs t src_project src_package dst_project dst_package mr
                     dst_libdebug src_libdebug (b\<lparr>text_summary := summary\<rparr>, l) pairs)))"

fun process_repos ::
  "tools \<Rightarrow> string \<Rightarrow> string \<Rightarrow> SourceInfo \<Rightarrow> string \<Rightarrow> string \<Rightarrow> SourceInfo
     \<Rightarrow> bot \<times> locals \<Rightarrow> MR list \<Rightarrow> error option \<times> bot \<times> locals" where
  "process_repos t src_project src_package src_srcinfo dst_project dst_package dst_srcinfo st [] =
     (None, st)"
| "process_repos t src_project src_package src_srcinfo dst_project dst_package dst_srcinfo st
     (mr # myrepos) =
     (case process_repo t src_project src_package src_srcinfo dst_project dst_package dst_srcinfo
             st mr of
        (Some e, st') \<Rightarrow> (Some e, st')
      | (None, st') \<Rightarrow>
          process_repos t src_project src_package src_srcinfo dst_project dst_package dst_srcinfo
            st' myrepos)"

section \<open>Maintenance incidents: \<^verbatim>\<open>_maintenance_hack\<close>\<close>

text \<open>
  \<^verbatim>\<open>mapped = {(mr.dstrepo, mr.arch): mr for mr in originrepos}\<close>: a later triple
  overwrites an earlier one with the same key.
\<close>

definition mapped_of :: "MR list \<Rightarrow> (string \<times> string) \<rightharpoonup> MR" where
  "mapped_of originrepos =
     foldl (\<lambda>mapped mr. mapped((dstrepo mr, arch mr) \<mapsto> mr)) Map.empty originrepos"

text \<open>
  The loop \<^verbatim>\<open>for mr in myrepos\<close> that maps the triples of the request to the
  repositories of the incident: a triple without an entry is logged and skipped, any other
  one gives \<^verbatim>\<open>MR(mr.srcrepo, mapped[(mr.dstrepo, mr.arch)].srcrepo, mr.arch)\<close>.
\<close>

fun remap_repos ::
  "((string \<times> string) \<rightharpoonup> MR) \<Rightarrow> string \<Rightarrow> string \<Rightarrow> MR list \<Rightarrow> MR list \<times> logrec list
     \<Rightarrow> MR list \<times> logrec list" where
  "remap_repos mapped originproject originpackage [] st = st"
| "remap_repos mapped originproject originpackage (mr # myrepos) (matchrepos, lg) =
     (case mapped (dstrepo mr, arch mr) of
        None \<Rightarrow>
          remap_repos mapped originproject originpackage myrepos
            (matchrepos,
             lg @ [(WARNING, ''couldn't find repo '' @ dstrepo mr @ ''/'' @ arch mr @ '' in ''
                      @ originproject @ ''/'' @ originpackage)])
      | Some origin \<Rightarrow>
          remap_repos mapped originproject originpackage myrepos
            (set_add (MR (srcrepo mr) (srcrepo origin) (arch mr)) matchrepos, lg))"

text \<open>
  \<^verbatim>\<open>_maintenance_hack\<close> returns \<^verbatim>\<open>(originproject, originpackage, dst_srcinfo, myrepos)\<close>.
  \<^verbatim>\<open>findrepos\<close> may return None for the incident; the loop over it then raises
  TypeError.
\<close>

definition maintenance_hack ::
  "obs \<Rightarrow> string \<Rightarrow> SourceInfo \<Rightarrow> MR list \<Rightarrow> logrec list
     \<Rightarrow> (error + string option \<times> string option \<times> SourceInfo \<times> MR list) \<times> logrec list" where
  "maintenance_hack api dst_project dst_srcinfo myrepos lg =
     (let pkg = package dst_srcinfo in
      case maintenance_search api dst_project of
        None \<Rightarrow> (Inr (None, None, dst_srcinfo, myrepos), lg)
      | Some mproject \<Rightarrow>
          (case get_originproject api dst_project pkg of
             Some originproject \<Rightarrow>
               (let alldisabled = list_all (\<lambda>code. code = Some ''disabled'')
                                    (build_codes api dst_project pkg)
                in (Inr (if alldisabled then Some originproject else None, None,
                         dst_srcinfo, myrepos), lg))
           | None \<Rightarrow>
               (case get_linktarget api dst_project pkg of
                  (linkprj, Some linkpkg) \<Rightarrow>
                    if linkprj = Some dst_project then
                      (case incident_of linkpkg of
                         None \<Rightarrow>
                           (Inl (MaintenanceError
                                   (dst_project @ ''/'' @ pkg @ '' -> '' @ py_str linkprj @ ''/''
                                      @ linkpkg @ '' is not a proper maintenance link (must match /''
                                      @ incident_pattern @ ''/)'')), lg)
                       | Some incident \<Rightarrow>
                           (let originproject = mproject @ '':'' @ incident;
                                originpackage = pkg @ ''.''
                                  @ map (\<lambda>c. if c = CHR '':'' then CHR ''_'' else c) dst_project
                            in case get_sourceinfo api originproject originpackage None of
                                 None \<Rightarrow>
                                   (Inl (MaintenanceError
                                           (originproject @ ''/'' @ originpackage @ '' invalid'')), lg)
                               | Some origin_srcinfo \<Rightarrow>
                                   (case findrepos api originproject origin_srcinfo dst_project
                                           dst_srcinfo lg of
                                      (Inl e, lg1) \<Rightarrow> (Inl e, lg1)
                                    | (Inr None, lg1) \<Rightarrow> (Inl TypeError, lg1)
                                    | (Inr (Some originrepos), lg1) \<Rightarrow>
                                        (let (matchrepos, lg2) =
                                               remap_repos (mapped_of originrepos) originproject
                                                 originpackage myrepos ([], lg1)
                                         in (Inr (Some originproject, Some originpackage,
                                                  origin_srcinfo, matchrepos), lg2)))))
                    else (Inr (None, None, dst_srcinfo, myrepos), lg)
                | (linkprj, None) \<Rightarrow> (Inr (None, None, dst_srcinfo, myrepos), lg))))"

section \<open>\<^verbatim>\<open>check_source_submission\<close>\<close>

definition PROJECT_BLACKLIST :: "(string \<times> string) list" where
  "PROJECT_BLACKLIST =
     [(''SUSE:SLE-11:Update'', ''abi-checker doesn't support SLE 11''),
      (''SUSE:SLE-11-SP1:Update'', ''abi-checker doesn't support SLE 11''),
      (''SUSE:SLE-11-SP2:Update'', ''abi-checker doesn't support SLE 11''),
      (''SUSE:SLE-11-SP3:Update'', ''abi-checker doesn't support SLE 11''),
      (''SUSE:SLE-11-SP4:Update'', ''abi-checker doesn't support SLE 11''),
      (''SUSE:SLE-11-SP5:Update'', ''abi-checker doesn't support SLE 11'')]"

text \<open>
  The loop over the matched triples and what follows it: the text about missing debug
  information, the report with \<^verbatim>\<open>result = overall\<close> and \<^verbatim>\<open>reports = libresults\<close>, and
  the return value \<^verbatim>\<open>ret\<close>, which starts as True. Removing the directory of the unpacked
  files has no part in the model.
\<close>

definition compare_repos ::
  "tools \<Rightarrow> Report \<Rightarrow> string \<Rightarrow> string \<Rightarrow> SourceInfo \<Rightarrow> string \<Rightarrow> string \<Rightarrow> SourceInfo
     \<Rightarrow> MR list \<Rightarrow> bot \<Rightarrow> (error + bool option) \<times> bot" where
  "compare_repos t report src_project src_package src_srcinfo dst_project dst_package dst_srcinfo
     myrepos b =
     (case process_repos t src_project src_package src_srcinfo dst_project dst_package dst_srcinfo
             (b, \<lparr>ret = Some True, overall = None, libresults = [], missing_debuginfo = []\<rparr>)
             myrepos of
        (Some e, (b1, l)) \<Rightarrow> (Inl e, b1)
      | (None, (b1, l)) \<Rightarrow>
          (let b2 = (if missing_debuginfo l \<noteq> [] then
                       b1\<lparr>text_summary := text_summary b1
                            @ ''debug information is missing for the following packages, can't check:''
                            @ nl @ ''<pre>'' @ concat (missing_debuginfo l) @ ''</pre>'' @ nl
                            @ ''please enable debug info in your project config.'' @ nl\<rparr>
                     else b1)
           in (Inr (ret l),
               b2\<lparr>reports := reports b2 @
                    [Report (rep_src_project report) (rep_src_package report) (rep_src_rev report)
                       (rep_dst_project report) (rep_dst_package report)
                       (libresults l) (overall l)]\<rparr>)))"

text \<open>
  The \<^verbatim>\<open>except\<close> clauses around \<^verbatim>\<open>findrepos\<close> and \<^verbatim>\<open>_maintenance_hack\<close>: each
  appends the empty report and returns; an exception without a clause leaves the function.
\<close>

definition matching_failed :: "Report \<Rightarrow> error \<Rightarrow> bot \<Rightarrow> (error + bool option) \<times> bot" where
  "matching_failed report e b =
     (case e of
        NoBuildSuccess prj pkg md5 \<Rightarrow>
          (Inr (Some False),
           b\<lparr>logged := logged b @ [(INFO, str_of_error e)],
              text_summary := text_summary b @ ''**Error**: '' @ str_of_error e @ nl,
              reports := reports b @ [report]\<rparr>)
      | NotReadyYet prj pkg reason \<Rightarrow>
          (Inr None,
           b\<lparr>logged := logged b @ [(INFO, str_of_error e)],
              reports := reports b @ [report]\<rparr>)
      | SourceBroken prj pkg \<Rightarrow>
          (Inr (Some False),
           b\<lparr>logged := logged b @ [(ERROR, str_of_error e)],
              text_summary := text_summary b @ ''**Error**: '' @ str_of_error e @ nl,
              reports := reports b @ [report]\<rparr>)
      | MaintenanceError msg \<Rightarrow>
          (Inr (Some False),
           b\<lparr>text_summary := text_summary b @ ''**Error**: '' @ str_of_error e @ nl @ nl,
              logged := logged b @ [(ERROR, str_of_error e)],
              reports := reports b @ [report]\<rparr>)
      | _ \<Rightarrow> (Inl e, b))"

text \<open>
  \<^verbatim>\<open>check_source_submission\<close> from the call of \<^verbatim>\<open>findrepos\<close> on. \<^verbatim>\<open>findrepos\<close>
  raises no MaintenanceError, so the clauses of both \<^verbatim>\<open>try\<close> statements are those of
  \<^verbatim>\<open>matching_failed\<close>.
\<close>

definition match_and_compare ::
  "obs \<Rightarrow> tools \<Rightarrow> Report \<Rightarrow> string \<Rightarrow> string \<Rightarrow> SourceInfo \<Rightarrow> string \<Rightarrow> string \<Rightarrow> SourceInfo
     \<Rightarrow> bot \<Rightarrow> (error + bool option) \<times> bot" where
  "match_and_compare api t report src_project src_package src_srcinfo dst_project dst_package
     dst_srcinfo b =
     (case findrepos api src_project src_srcinfo dst_project dst_srcinfo (logged b) of
        (Inl e, lg1) \<Rightarrow> matching_failed report e (b\<lparr>logged := lg1\<rparr>)
      | (Inr found, lg1) \<Rightarrow>
          (let b1 = b\<lparr>logged := lg1\<rparr>;
               myrepos = (case found of None \<Rightarrow> [] | Some mrs \<Rightarrow> mrs)
           in if myrepos = [] then
                (Inr (Some False),
                 b1\<lparr>text_summary := text_summary b1 @ ''**Error**: '' @ src_project
                        @ '' does not build against '' @ dst_project
                        @ '', can't check library ABIs'' @ nl @ nl,
                    logged := logged b1 @ [(INFO, ''no matching repos, can't compare'')],
                    reports := reports b1 @ [report]\<rparr>)
              else
                (case maintenance_hack api dst_project dst_srcinfo myrepos (logged b1) of
                   (Inl e, lg2) \<Rightarrow> matching_failed report e (b1\<lparr>logged := lg2\<rparr>)
                 | (Inr (originproject, originpackage, origin_srcinfo, new_repo_map), lg2) \<Rightarrow>
                     compare_repos t report src_project src_package src_srcinfo
                       (case originproject of None \<Rightarrow> dst_project | Some p \<Rightarrow> p)
                       (case originpackage of None \<Rightarrow> dst_package | Some p \<Rightarrow> p)
                       origin_srcinfo new_repo_map (b1\<lparr>logged := lg2\<rparr>))))"

text \<open>
  \<^verbatim>\<open>check_source_submission(src_project, src_package, src_rev, dst_project, dst_package)\<close>.
  The destination project may be None, for a maintenance incident; the source returns None
  for its \<^verbatim>\<open>patchinfo\<close> package then. For another package it would go on with None as the
  name of a project, which the model does not follow: \<^verbatim>\<open>Inl TypeError\<close> stands for that
  case. \<^verbatim>\<open>base_check\<close> are the records the method of the base class logs.
\<close>

definition check_source_submission ::
  "obs \<Rightarrow> tools \<Rightarrow> logrec list \<Rightarrow> string \<Rightarrow> string \<Rightarrow> string option \<Rightarrow> string option \<Rightarrow> string
     \<Rightarrow> bot \<Rightarrow> (error + bool option) \<times> bot" where
  "check_source_submission api t base_check src_project src_package src_rev dst_project_opt
     dst_package b =
     (case dst_project_opt of
        None \<Rightarrow> if src_package = ''patchinfo'' then (Inr None, b) else (Inl TypeError, b)
      | Some dst_project \<Rightarrow>
          (case map_of PROJECT_BLACKLIST dst_project of
             Some why \<Rightarrow> (Inr (Some True), b\<lparr>logged := logged b @ [(INFO, why)]\<rparr>)
           | None \<Rightarrow>
               if has_staging api dst_project
                  \<and> (staging_project api = None \<or> staging_project api = Some [])
               then (Inr None, b)
               else
                 (let staged = has_staging api dst_project;
                      src_project1 = (if staged then py_str (staging_project api) else src_project);
                      src_package1 = (if staged then dst_package else src_package);
                      src_rev1 = (if staged then None else src_rev);
                      b1 = b\<lparr>logged := logged b @ base_check\<rparr>;
                      report = Report src_project1 src_package1 src_rev1 dst_project dst_package [] None
                  in case get_sourceinfo api dst_project dst_package None of
                       None \<Rightarrow>
                         (Inr (Some True),
                          b1\<lparr>logged := logged b1 @
                                [(INFO, dst_project @ ''/'' @ dst_package
                                    @ '' seems to be a new package, no need to review'')],
                             reports := reports b1 @ [report]\<rparr>)
                     | Some dst_srcinfo \<Rightarrow>
                         (case get_sourceinfo api src_project1 src_package1 src_rev1 of
                            None \<Rightarrow>
                              (let msg = src_project1 @ ''/'' @ src_package1 @ ''@'' @ py_str src_rev1
                                           @ '' does not exist!? can't check''
                               in (Inr (Some False),
                                   b1\<lparr>logged := logged b1 @ [(ERROR, msg)],
                                      text_summary := text_summary b1 @ msg @ nl,
                                      reports := reports b1 @ [report]\<rparr>))
                          | Some src_srcinfo \<Rightarrow>
                              match_and_compare api t report src_project1 src_package1 src_srcinfo
                                dst_project dst_package dst_srcinfo b1))))"

section \<open>Persistence: \<^verbatim>\<open>save_reports_to_db\<close> over abichecker\_dbmodel.py\<close>

text \<open>
  The rows of the tables \<^verbatim>\<open>abicheck\<close> and \<^verbatim>\<open>libreport\<close> with their columns, but for
  the time stamps \<^verbatim>\<open>t_created\<close> and \<^verbatim>\<open>t_updated\<close>. The table \<^verbatim>\<open>request\<close> maps the
  primary key to \<^verbatim>\<open>(state, result)\<close>.
\<close>

datatype ABICheck = ABICheck
  (ac_id: nat) (ac_request_id: nat)
  (ac_src_project: string) (ac_src_package: string) (ac_src_rev: "string option")
  (ac_dst_project: string) (ac_dst_package: string) (ac_result: "bool option")

datatype LibReport = LibReport
  (lp_id: nat) (lp_submission_id: nat)
  (lp_src_repo: string) (lp_src_lib: string) (lp_dst_repo: string) (lp_dst_lib: string)
  (lp_arch: string) (lp_htmlreport: string) (lp_result: bool)

record db =
  requests :: "nat \<rightharpoonup> string \<times> string option"
  abichecks :: "ABICheck list"
  libreports :: "LibReport list"

text \<open>
  The key of a new row: an integer primary key of SQLite is one more than the largest key
  of the table, and 1 in an empty table.
\<close>

definition next_id :: "nat list \<Rightarrow> nat" where
  "next_id ids = Suc (fold max ids 0)"

text \<open>\<^verbatim>\<open>'%d' % n\<close> and \<^verbatim>\<open>'%s' % n\<close> for a number that is not negative.\<close>

fun dec_of_nat :: "nat \<Rightarrow> string" where
  "dec_of_nat n =
     (if n < 10 then [''0123456789'' ! n]
      else dec_of_nat (n div 10) @ [''0123456789'' ! (n mod 10)])"

text \<open>
  \<^verbatim>\<open>session.delete(i)\<close> for every \<^verbatim>\<open>ABICheck\<close> row of the request. The relationship
  \<^verbatim>\<open>LibReport.abicheck\<close> has \<^verbatim>\<open>backref('reports', cascade="all, delete-orphan")\<close>, so
  the \<^verbatim>\<open>LibReport\<close> rows of a deleted \<^verbatim>\<open>ABICheck\<close> row go with it.
\<close>

definition delete_abichecks :: "nat \<Rightarrow> db \<Rightarrow> db" where
  "delete_abichecks reqid d =
     (let gone = map ac_id (filter (\<lambda>a. ac_request_id a = reqid) (abichecks d))
      in d\<lparr>abichecks := filter (\<lambda>a. ac_request_id a \<noteq> reqid) (abichecks d),
           libreports := filter (\<lambda>l. lp_submission_id l \<notin> set gone) (libreports d)\<rparr>)"

text \<open>
  The body of the loop \<^verbatim>\<open>for lr in r.reports\<close>: one \<^verbatim>\<open>LibReport\<close> row and one
  line of text.
\<close>

definition save_libreport :: "string option \<Rightarrow> nat \<Rightarrow> db \<times> string \<Rightarrow> LibResult \<Rightarrow> db \<times> string" where
  "save_libreport web_url abicheck_id st lr =
     (let (d, summary) = st;
          libreport = LibReport (next_id (map lp_id (libreports d))) abicheck_id
                        (lib_src_repo lr) (lib_src_lib lr) (lib_dst_repo lr) (lib_dst_lib lr)
                        (lib_arch lr) (lib_htmlreport lr) (lib_result lr)
      in (d\<lparr>libreports := libreports d @ [libreport]\<rparr>,
          summary @ ''* '' @ lib_dst_lib lr @ '' ('' @ lib_arch lr @ ''): [''
            @ (if lib_result lr then ''compatible'' else ''***INCOMPATIBLE***'')
            @ '']('' @ py_str web_url @ ''/report/'' @ dec_of_nat (lp_id libreport) @ '')'' @ nl))"

text \<open>
  The body of the loop \<^verbatim>\<open>for r in self.reports\<close>: one \<^verbatim>\<open>ABICheck\<close> row; a report
  without a result gets no text and no \<^verbatim>\<open>LibReport\<close> rows.
\<close>

definition save_report :: "string option \<Rightarrow> nat \<Rightarrow> db \<times> string \<Rightarrow> Report \<Rightarrow> db \<times> string" where
  "save_report web_url reqid st r =
     (let (d, summary) = st;
          abicheck = ABICheck (next_id (map ac_id (abichecks d))) reqid
                       (rep_src_project r) (rep_src_package r) (rep_src_rev r)
                       (rep_dst_project r) (rep_dst_package r) (rep_result r);
          d1 = d\<lparr>abichecks := abichecks d @ [abicheck]\<rparr>
      in case rep_result r of
           None \<Rightarrow> (d1, summary)
         | Some res \<Rightarrow>
             (let summary1 =
                    (if res then
                       summary @ ''Good news from ABI check, '' @ rep_dst_package r
                         @ '' seems to be ABI [compatible]('' @ py_str web_url @ ''/request/''
                         @ dec_of_nat reqid @ ''):'' @ nl @ nl
                     else
                       summary @ ''Warning: bad news from ABI check, '' @ rep_dst_package r
                         @ '' may be ABI [**INCOMPATIBLE**]('' @ py_str web_url @ ''/request/''
                         @ dec_of_nat reqid @ ''):'' @ nl @ nl)
              in foldl (save_libreport web_url (ac_id abicheck)) (d1, summary1) (rep_reports r)))"

definition save_reports :: "string option \<Rightarrow> nat \<Rightarrow> Report list \<Rightarrow> db \<times> string \<Rightarrow> db \<times> string" where
  "save_reports web_url reqid rs st = foldl (save_report web_url reqid) st rs"

text \<open>
  \<^verbatim>\<open>save_reports_to_db(req, state, result)\<close> with \<^verbatim>\<open>reqid = req.reqid\<close> and the global
  \<^verbatim>\<open>WEB_URL\<close>: a request that has a row loses its \<^verbatim>\<open>ABICheck\<close> rows and gets the new
  state and result, a request without a row gets one; then the reports are stored and
  \<^verbatim>\<open>self.reports\<close> is emptied.
\<close>

definition save_reports_to_db ::
  "string option \<Rightarrow> nat \<Rightarrow> string \<Rightarrow> string option \<Rightarrow> db \<times> bot \<Rightarrow> db \<times> bot" where
  "save_reports_to_db web_url reqid state result st =
     (let (d, b) = st;
          d1 = (case requests d reqid of
                  Some row \<Rightarrow> (delete_abichecks reqid d)\<lparr>requests := (requests d)(reqid \<mapsto> (state, result))\<rparr>
                | None \<Rightarrow> d\<lparr>requests := (requests d)(reqid \<mapsto> (state, result))\<rparr>);
          (d2, summary) = save_reports web_url reqid (reports b) (d1, text_summary b)
      in (d2, b\<lparr>text_summary := summary, reports := []\<rparr>))"

section \<open>The archive parser (osclib/cpio.py)\<close>

text \<open>
  The module runs under Python 3 (it formats a message with an f-string). There a
  \<^verbatim>\<open>bytes\<close> object and a \<^verbatim>\<open>str\<close> object are never equal, whatever they hold, and
  \<^verbatim>\<open>struct.unpack\<close> takes a bytes-like buffer only and returns \<^verbatim>\<open>bytes\<close> for
  the format \<^verbatim>\<open>s\<close>. A string value of the program is one of the two:
\<close>

datatype pystring = Bytes string | Str string

datatype cpio_error =
    Exception string
  | StructError
  | AttributeError string
  | ValueError
  | StopIteration

text \<open>
  \<^verbatim>\<open>buf[a:b]\<close> for a sequence and two integers: an index below zero counts from the end,
  and both are clipped to the sequence.
\<close>

definition clip_index :: "nat \<Rightarrow> int \<Rightarrow> nat" where
  "clip_index n i = (if i < 0 then nat (max 0 (int n + i)) else min (nat i) n)"

definition py_slice :: "'a list \<Rightarrow> int \<Rightarrow> int \<Rightarrow> 'a list" where
  "py_slice buf a b =
     (let lo = clip_index (length buf) a; hi = clip_index (length buf) b
      in take (hi - lo) (drop lo buf))"

text \<open>
  The split of a buffer of 110 bytes by \<^verbatim>\<open>struct.unpack("6s8s...8s", ...)\<close>: the magic
  and thirteen fields of eight bytes.
\<close>

fun chunks8 :: "nat \<Rightarrow> string \<Rightarrow> string list" where
  "chunks8 0 s = []"
| "chunks8 (Suc n) s = take 8 s # chunks8 n (drop 8 s)"

record CpioFile =
  cf_off :: int
  cf_buf :: string
  c_ino :: int
  c_mode :: int
  c_uid :: int
  c_gid :: int
  c_nlink :: int
  c_mtime :: int
  c_filesize :: int
  c_devmajor :: int
  c_devminor :: int
  c_rdevmajor :: int
  c_rdevminor :: int
  c_namesize :: int
  c_check :: int
  name :: pystring
  payloadstart :: int

text \<open>
  \<^verbatim>\<open>CpioFile.__init__(self, off, buf)\<close> for a \<^verbatim>\<open>bytes\<close> buffer. \<^verbatim>\<open>int16\<close> is the
  built-in \<^verbatim>\<open>int(v, 16)\<close> on \<^verbatim>\<open>bytes\<close>, None where it raises ValueError. The magic
  \<^verbatim>\<open>fields[0]\<close> is a \<^verbatim>\<open>bytes\<close> object and the source compares it with the \<^verbatim>\<open>str\<close>
  literal \<^verbatim>\<open>"070701"\<close>; the message of the exception it then raises reads
  \<^verbatim>\<open>self.c_magic\<close>, an attribute that nothing sets.
\<close>

definition CpioFile_init :: "(string \<Rightarrow> int option) \<Rightarrow> int \<Rightarrow> string \<Rightarrow> cpio_error + CpioFile" where
  "CpioFile_init int16 off buf =
     (if off mod 4 \<noteq> 0 then
        Inl (Exception (''invalid offset '' @ (if off < 0 then ''-'' else []) @ dec_of_nat (nat \<bar>off\<bar>)))
      else
        (let off1 = off + 110;
             head = py_slice buf off off1
         in if length head \<noteq> 110 then Inl StructError
            else
              (let magic = Bytes (take 6 head);
                   fields = map int16 (chunks8 13 (drop 6 head))
               in if magic \<noteq> Str ''070701'' then Inl (AttributeError ''c_magic'')
                  else if None \<in> set fields then Inl ValueError
                  else
                    (let v = map the fields;
                         nlen = v ! 11 - 1;
                         raw = py_slice buf off1 (off1 + nlen)
                     in if nlen < 0 \<or> int (length raw) \<noteq> nlen then Inl StructError
                        else
                          (let off2 = off1 + nlen + 1;
                               off3 = (if off2 mod 4 \<noteq> 0 then off2 + 4 - off2 mod 4 else off2)
                           in Inr \<lparr>cf_off = off, cf_buf = buf,
                                   c_ino = v ! 0, c_mode = v ! 1, c_uid = v ! 2, c_gid = v ! 3,
                                   c_nlink = v ! 4, c_mtime = v ! 5, c_filesize = v ! 6,
                                   c_devmajor = v ! 7, c_devminor = v ! 8, c_rdevmajor = v ! 9,
                                   c_rdevminor = v ! 10, c_namesize = v ! 11, c_check = v ! 12,
                                   name = Bytes raw, payloadstart = off3\<rparr>)))))"

text \<open>\<^verbatim>\<open>fin\<close> compares the name, a \<^verbatim>\<open>bytes\<close> object, with a \<^verbatim>\<open>str\<close> literal.\<close>

definition fin :: "CpioFile \<Rightarrow> bool" where
  "fin f = (name f = Str ''TRAILER!!!'')"

definition header :: "CpioFile \<Rightarrow> string" where
  "header f = py_slice (cf_buf f) (payloadstart f) (payloadstart f + c_filesize f)"

definition file_length :: "CpioFile \<Rightarrow> int" where
  "file_length f =
     (let len = payloadstart f - cf_off f + c_filesize f
      in if c_filesize f mod 4 \<noteq> 0 then len + 4 - c_filesize f mod 4 else len)"

text \<open>
  \<^verbatim>\<open>Cpio.next\<close>: the state of the iterator is the buffer and the offset; the result is
  the file and the new offset.
\<close>

definition Cpio_next ::
  "(string \<Rightarrow> int option) \<Rightarrow> string \<Rightarrow> int \<Rightarrow> cpio_error + CpioFile \<times> int" where
  "Cpio_next int16 buf off =
     (case CpioFile_init int16 off buf of
        Inl e \<Rightarrow> Inl e
      | Inr f \<Rightarrow> if fin f then Inl StopIteration else Inr (f, off + file_length f))"

text \<open>
  Calling \<^verbatim>\<open>next\<close> until it raises: the files it returned, when the exception is
  StopIteration, and the exception otherwise. Nothing bounds the number of calls for an
  arbitrary buffer, so the function takes the number of calls it may make and returns None
  when they do not suffice.
\<close>

fun cpio_files ::
  "nat \<Rightarrow> (string \<Rightarrow> int option) \<Rightarrow> string \<Rightarrow> int \<Rightarrow> (cpio_error + CpioFile list) option" where
  "cpio_files 0 int16 buf off = None"
| "cpio_files (Suc n) int16 buf off =
     (case Cpio_next int16 buf off of
        Inl StopIteration \<Rightarrow> Some (Inr [])
      | Inl e \<Rightarrow> Some (Inl e)
      | Inr (f, off') \<Rightarrow>
          (case cpio_files n int16 buf off' of
             None \<Rightarrow> None
           | Some (Inl e) \<Rightarrow> Some (Inl e)
           | Some (Inr fs) \<Rightarrow> Some (Inr (f # fs))))"

section \<open>Notions of the specification\<close>

text \<open>
  The settledness check speaks of a matched triple that passes and of one whose sources
  are broken. Both read the build result of the triple's (source repository, arch) in
  \<^verbatim>\<open>rmap\<close>: a triple passes when it has a result that is not dirty with a code among
  \<^verbatim>\<open>succeeded\<close>, \<^verbatim>\<open>locked\<close>, \<^verbatim>\<open>excluded\<close>; it is broken when it has a result that
  is not dirty with the code \<^verbatim>\<open>broken\<close>. \<^verbatim>\<open>rmap_of\<close> is the \<^verbatim>\<open>rmap\<close> that
  \<^verbatim>\<open>ensure_settled\<close> builds.
\<close>

definition triple_settled :: "((string \<times> string) \<rightharpoonup> res) \<Rightarrow> MR \<Rightarrow> bool" where
  "triple_settled rmap mr =
     (case rmap (srcrepo mr, arch mr) of
        None \<Rightarrow> False
      | Some r \<Rightarrow> \<not> res_dirty r \<and> res_code r \<in> set [''succeeded'', ''locked'', ''excluded''])"

definition triple_broken :: "((string \<times> string) \<rightharpoonup> res) \<Rightarrow> MR \<Rightarrow> bool" where
  "triple_broken rmap mr =
     (case rmap (srcrepo mr, arch mr) of
        None \<Rightarrow> False
      | Some r \<Rightarrow> \<not> res_dirty r \<and> res_code r = ''broken'')"

definition rmap_of :: "obs \<Rightarrow> string \<Rightarrow> SourceInfo \<Rightarrow> MR list \<Rightarrow> (string \<times> string) \<rightharpoonup> res" where
  "rmap_of api src_project src_srcinfo matchrepos =
     build_rmap (package src_srcinfo)
       (get_package_results api src_project (package src_srcinfo)
          (map srcrepo matchrepos) (map arch matchrepos))"

text \<open>
  The specification's verdict has three values with the dominance
  \<^verbatim>\<open>Incompatible > Compatible > Unknown\<close>; \<^verbatim>\<open>dominate\<close> is the larger of two verdicts.
  The code keeps a verdict as \<^verbatim>\<open>None\<close>, \<^verbatim>\<open>True\<close> or \<^verbatim>\<open>False\<close>. The outcome of a
  compared pair is the verdict of the \<^verbatim>\<open>LibResult\<close> it records; a pair with the outcome
  Unknown records none. \<^verbatim>\<open>recorded l l'\<close> are the results that a run from \<^verbatim>\<open>l\<close> to
  \<^verbatim>\<open>l'\<close> has appended.
\<close>

datatype verdict = Unknown | Compatible | Incompatible

definition verdict_of :: "bool option \<Rightarrow> verdict" where
  "verdict_of r = (case r of None \<Rightarrow> Unknown | Some True \<Rightarrow> Compatible | Some False \<Rightarrow> Incompatible)"

fun dominate :: "verdict \<Rightarrow> verdict \<Rightarrow> verdict" where
  "dominate Incompatible v = Incompatible"
| "dominate v Incompatible = Incompatible"
| "dominate Compatible v = Compatible"
| "dominate v Compatible = Compatible"
| "dominate Unknown Unknown = Unknown"

definition lib_verdict :: "LibResult \<Rightarrow> verdict" where
  "lib_verdict lr = verdict_of (Some (lib_result lr))"

definition recorded :: "locals \<Rightarrow> locals \<Rightarrow> LibResult list" where
  "recorded l l' = drop (length (libresults l)) (libresults l')"



text \<open>
  The libraries that the reverse index lists under an alias. The partners of a library of
  the destination: the library itself when the source has one with the same path, and
  otherwise the libraries of the source that share an alias with it. A library without a
  partner gives a warning in the summary.
\<close>

definition index_libs :: "(string \<rightharpoonup> string list) \<Rightarrow> string \<Rightarrow> string set" where
  "index_libs src_aliases a = (case src_aliases a of None \<Rightarrow> {} | Some ls \<Rightarrow> set ls)"

definition partners :: "libs \<Rightarrow> libs \<Rightarrow> string \<Rightarrow> string set" where
  "partners dst_libs src_libs lib =
     (if lib \<in> fst ` set src_libs then {lib}
      else {l \<in> fst ` set src_libs.
              set (lib_aliases dst_libs lib) \<inter> set (lib_aliases src_libs l) \<noteq> {}})"

definition warning_for :: "libs \<Rightarrow> libs \<Rightarrow> string \<Rightarrow> string" where
  "warning_for dst_libs src_libs lib =
     (if partners dst_libs src_libs lib = {}
      then ''*Warning*: '' @ lib @ '' no longer packaged'' @ nl @ nl else [])"

text \<open>
  For a maintenance incident: the triple that the loop of \<^verbatim>\<open>_maintenance_hack\<close> makes
  of a triple of the request, None when the incident has no repository for its
  destination repository and architecture; the warning logged for such a triple; and the
  names of the project and the package of the incident.
\<close>

definition remapped :: "MR list \<Rightarrow> MR \<Rightarrow> MR option" where
  "remapped originrepos mr =
     map_option (\<lambda>origin. MR (srcrepo mr) (srcrepo origin) (arch mr))
       (mapped_of originrepos (dstrepo mr, arch mr))"

definition unmapped_warning :: "string \<Rightarrow> string \<Rightarrow> MR \<Rightarrow> logrec" where
  "unmapped_warning originproject originpackage mr =
     (WARNING, ''couldn't find repo '' @ dstrepo mr @ ''/'' @ arch mr @ '' in ''
                 @ originproject @ ''/'' @ originpackage)"

definition incident_project :: "string \<Rightarrow> string \<Rightarrow> string" where
  "incident_project mproject incident = mproject @ '':'' @ incident"

definition incident_package :: "string \<Rightarrow> string \<Rightarrow> string" where
  "incident_package pkg dst_project =
     pkg @ ''.'' @ map (\<lambda>c. if c = CHR '':'' then CHR ''_'' else c) dst_project"

text \<open>
  For the persistence. The foreign keys of the data model hold in a database when every
  \<^verbatim>\<open>ABICheck\<close> row belongs to a stored request and every \<^verbatim>\<open>LibReport\<close> row to a
  stored \<^verbatim>\<open>ABICheck\<close> row (\<^verbatim>\<open>refs_ok\<close> is the second half). The sub-reports stored
  for a request are its \<^verbatim>\<open>ABICheck\<close> rows, each with its \<^verbatim>\<open>LibReport\<close> rows, read
  back as reports: the columns without the keys. \<^verbatim>\<open>stored_form\<close> is what is stored of a
  report: a report without a result is stored without library results.
\<close>

definition db_wf :: "db \<Rightarrow> bool" where
  "db_wf d = ((\<forall>a\<in>set (abichecks d). ac_request_id a \<in> dom (requests d))
            \<and> (\<forall>l\<in>set (libreports d). lp_submission_id l \<in> ac_id ` set (abichecks d)))"

definition to_libresult :: "LibReport \<Rightarrow> LibResult" where
  "to_libresult l = LibResult (lp_src_repo l) (lp_src_lib l) (lp_dst_repo l) (lp_dst_lib l)
                      (lp_arch l) (lp_htmlreport l) (lp_result l)"

definition stored_report :: "db \<Rightarrow> ABICheck \<Rightarrow> Report" where
  "stored_report d a =
     Report (ac_src_project a) (ac_src_package a) (ac_src_rev a) (ac_dst_project a) (ac_dst_package a)
       (map to_libresult (filter (\<lambda>l. lp_submission_id l = ac_id a) (libreports d)))
       (ac_result a)"

definition stored_reports :: "db \<Rightarrow> nat \<Rightarrow> Report list" where
  "stored_reports d reqid =
     map (stored_report d) (filter (\<lambda>a. ac_request_id a = reqid) (abichecks d))"

definition stored_form :: "Report \<Rightarrow> Report" where
  "stored_form r =
     Report (rep_src_project r) (rep_src_package r) (rep_src_rev r) (rep_dst_project r)
       (rep_dst_package r) (if rep_result r = None then [] else rep_reports r) (rep_result r)"

definition refs_ok :: "db \<Rightarrow> bool" where
  "refs_ok d = (\<forall>l\<in>set (libreports d). lp_submission_id l \<in> ac_id ` set (abichecks d))"

section \<open>Concrete inputs\<close>

text \<open>
  A build service that answers nothing, the source infos of a package \<^verbatim>\<open>libfoo\<close>
  submitted from \<^verbatim>\<open>home:dev\<close> to \<^verbatim>\<open>openSUSE:Factory\<close>, and a build result of that
  package. The inputs below change single answers.
\<close>

definition no_obs :: obs where
  "no_obs = \<lparr>
     get_dstrepos = (\<lambda>prj. None),
     project_meta = (\<lambda>prj. None),
     get_package_results = (\<lambda>prj pkg repos archs. []),
     get_buildsuccess_repos = (\<lambda>src tgt pkg md5. None),
     staging_project = None,
     has_staging = (\<lambda>prj. False),
     get_sourceinfo = (\<lambda>prj pkg r. None),
     maintenance_search = (\<lambda>prj. None),
     get_originproject = (\<lambda>prj pkg. None),
     build_codes = (\<lambda>prj pkg. []),
     get_linktarget = (\<lambda>prj pkg. (None, None))\<rparr>"

definition ex_src :: SourceInfo where
  "ex_src = \<lparr>project = ''home:dev'', package = ''libfoo'', srcmd5 = ''11'', verifymd5 = ''0f''\<rparr>"

definition ex_dst :: SourceInfo where
  "ex_dst = \<lparr>project = ''openSUSE:Factory'', package = ''libfoo'', srcmd5 = ''22'', verifymd5 = ''0a''\<rparr>"

definition build_result :: "string \<Rightarrow> string \<Rightarrow> bool \<Rightarrow> string \<Rightarrow> res" where
  "build_result repo a dirty code =
     \<lparr>res_package = Some ''libfoo'', res_repository = repo, res_arch = a,
      res_dirty = dirty, res_code = code\<rparr>"

text \<open>
  The source project builds against \<^verbatim>\<open>openSUSE:Factory/standard\<close> for \<^verbatim>\<open>x86_64\<close> and
  \<^verbatim>\<open>i586\<close>; both builds are settled, and the report of successful builds of the
  revision lists \<^verbatim>\<open>i586\<close> only.
\<close>

definition c1_api :: obs where
  "c1_api = no_obs\<lparr>
     get_dstrepos := (\<lambda>prj. if prj = ''openSUSE:Factory''
        then Some [(''standard'', ''x86_64''), (''standard'', ''i586'')] else None),
     project_meta := (\<lambda>prj. if prj = ''home:dev''
        then Some [\<lparr>repo_name = ''openSUSE_Factory'',
                     repo_paths = [(''openSUSE:Factory'', ''standard'')],
                     repo_archs = [''x86_64'', ''i586'']\<rparr>] else None),
     get_package_results := (\<lambda>prj pkg repos archs.
        [build_result ''openSUSE_Factory'' ''x86_64'' False ''succeeded'',
         build_result ''openSUSE_Factory'' ''i586'' False ''succeeded'']),
     get_buildsuccess_repos := (\<lambda>src tgt pkg md5. Some [(''openSUSE_Factory'', ''i586'')])\<rparr>"

text \<open>
  Build results of four architectures: \<^verbatim>\<open>i586\<close> is dirty and building, \<^verbatim>\<open>x86_64\<close>
  is broken, \<^verbatim>\<open>s390x\<close> is dirty and broken, \<^verbatim>\<open>aarch64\<close> has succeeded.
\<close>

definition c2_api :: obs where
  "c2_api = no_obs\<lparr>
     get_package_results := (\<lambda>prj pkg repos archs.
        [build_result ''standard'' ''i586'' True ''building'',
         build_result ''standard'' ''x86_64'' False ''broken'',
         build_result ''standard'' ''s390x'' True ''broken'',
         build_result ''standard'' ''aarch64'' False ''succeeded''])\<rparr>"

text \<open>
  The state of the bot and of the loop before the first matched triple. A package with
  four libraries and their debug files. A machine whose extraction and whose compare tool
  answer as two given functions say, by project and repository and by library name; its
  dump tool always succeeds.
\<close>

definition bot0 :: bot where
  "bot0 = \<lparr>reports = [], text_summary = [], logged = []\<rparr>"

definition locals0 :: locals where
  "locals0 = \<lparr>ret = Some True, overall = None, libresults = [], missing_debuginfo = []\<rparr>"

definition four_libs :: libs where
  "four_libs = [(''/usr/lib64/liba.so.1'', []), (''/usr/lib64/libb.so.1'', []),
                (''/usr/lib64/libc.so.1'', []), (''/usr/lib64/libd.so.1'', [])]"

definition four_debugs :: debugs where
  "four_debugs = map (\<lambda>(lib, as). (lib, ''/usr/lib/debug'' @ lib @ ''.debug'')) four_libs"

definition tools_with :: "(string \<Rightarrow> string \<Rightarrow> error + (libs \<times> debugs) option) \<Rightarrow> (string \<Rightarrow> int) \<Rightarrow> tools" where
  "tools_with ex code_of = \<lparr>
     cachedir = ''/var/cache/abi'',
     extract_libs = (\<lambda>prj pkg si repo a. ex prj repo),
     popen_wait = (\<lambda>cmd. if cmd ! 0 = ''abi-compliance-checker'' then code_of (cmd ! 2) else 0),
     clock = (\<lambda>mr old new. 1700000000)\<rparr>"

text \<open>
  The compare tool finds \<^verbatim>\<open>libc\<close> incompatible and the other libraries compatible (C3);
  it finds \<^verbatim>\<open>liba\<close> compatible, \<^verbatim>\<open>libb\<close> incompatible and fails on the others (C7);
  the download for the source project fails (C4), in a run that has already recorded a
  compatible library.
\<close>

definition c3_tools :: tools where
  "c3_tools = tools_with (\<lambda>prj repo. Inr (Some (four_libs, four_debugs)))
                (\<lambda>libname. if libname = ''c'' then 1 else 0)"

definition c7_tools :: tools where
  "c7_tools = tools_with (\<lambda>prj repo. Inr (Some (four_libs, four_debugs)))
                (\<lambda>libname. if libname = ''a'' then 0 else if libname = ''b'' then 1 else 2)"



definition c3_run :: "error option \<times> bot \<times> locals" where
  "c3_run = process_repos c3_tools ''home:dev'' ''libfoo'' ex_src ''openSUSE:Factory'' ''libfoo'' ex_dst
              (bot0, locals0) [MR ''openSUSE_Factory'' ''standard'' ''x86_64'']"

text \<open>
  The libraries of claim C5: the destination has \<^verbatim>\<open>liba.so.1\<close> without aliases and the
  source has \<^verbatim>\<open>liba.so.2\<close> with the alias \<^verbatim>\<open>liba.so.1\<close>; and a pair of packages in
  which both libraries have the alias \<^verbatim>\<open>liba.so\<close>.
\<close>

definition c5_dst :: libs where "c5_dst = [(''liba.so.1'', [])]"
definition c5_src :: libs where "c5_src = [(''liba.so.2'', [''liba.so.1''])]"
definition c5_dst_alias :: libs where "c5_dst_alias = [(''liba.so.1'', [''liba.so''])]"
definition c5_src_alias :: libs where "c5_src_alias = [(''liba.so.2'', [''liba.so''])]"

text \<open>
  A maintenance incident: \<^verbatim>\<open>SUSE:SLE-12:Update/libfoo\<close> links to \<^verbatim>\<open>libfoo.1234\<close>, the
  incident \<^verbatim>\<open>SUSE:Maintenance:1234\<close> builds its repository \<^verbatim>\<open>SUSE_SLE-12_Update\<close>
  against \<^verbatim>\<open>SUSE:SLE-12:Update/standard\<close> for \<^verbatim>\<open>x86_64\<close> only, and the request has
  matched \<^verbatim>\<open>standard\<close> for \<^verbatim>\<open>x86_64\<close> and \<^verbatim>\<open>s390x\<close> from its repository
  \<^verbatim>\<open>SLE_12\<close>.
\<close>

definition c9_dst :: SourceInfo where
  "c9_dst = \<lparr>project = ''SUSE:SLE-12:Update'', package = ''libfoo'', srcmd5 = ''22'', verifymd5 = ''0a''\<rparr>"

definition c9_origin :: SourceInfo where
  "c9_origin = \<lparr>project = ''SUSE:Maintenance:1234'', package = ''libfoo.SUSE_SLE-12_Update'',
                 srcmd5 = ''33'', verifymd5 = ''0b''\<rparr>"

definition c9_api :: obs where
  "c9_api = no_obs\<lparr>
     maintenance_search := (\<lambda>prj. if prj = ''SUSE:SLE-12:Update'' then Some ''SUSE:Maintenance'' else None),
     get_linktarget := (\<lambda>prj pkg. (Some ''SUSE:SLE-12:Update'', Some ''libfoo.1234'')),
     get_sourceinfo := (\<lambda>prj pkg r. if prj = ''SUSE:Maintenance:1234'' then Some c9_origin else None),
     get_dstrepos := (\<lambda>prj. if prj = ''SUSE:SLE-12:Update''
        then Some [(''standard'', ''x86_64''), (''standard'', ''s390x'')] else None),
     project_meta := (\<lambda>prj. if prj = ''SUSE:Maintenance:1234''
        then Some [\<lparr>repo_name = ''SUSE_SLE-12_Update'',
                     repo_paths = [(''SUSE:SLE-12:Update'', ''standard'')],
                     repo_archs = [''x86_64'']\<rparr>] else None),
     get_package_results := (\<lambda>prj pkg repos archs.
        [\<lparr>res_package = Some ''libfoo.SUSE_SLE-12_Update'', res_repository = ''SUSE_SLE-12_Update'',
           res_arch = ''x86_64'', res_dirty = False, res_code = ''succeeded''\<rparr>]),
     get_buildsuccess_repos := (\<lambda>src tgt pkg md5. Some [(''SUSE_SLE-12_Update'', ''x86_64'')])\<rparr>"

definition c9_myrepos :: "MR list" where
  "c9_myrepos = [MR ''SLE_12'' ''standard'' ''x86_64'', MR ''SLE_12'' ''standard'' ''s390x'']"

text \<open>
  A database with two requests, each with one stored sub-report, and a bot that holds one
  report with two library results for request 7.
\<close>

definition c8_db :: db where
  "c8_db = \<lparr>
     requests = [7 \<mapsto> (''seen'', None), 8 \<mapsto> (''done'', Some ''accepted'')],
     abichecks =
       [ABICheck 1 7 ''home:dev'' ''libfoo'' (Some ''2'') ''openSUSE:Factory'' ''libfoo'' (Some True),
        ABICheck 2 8 ''home:dev'' ''libbar'' (Some ''5'') ''openSUSE:Factory'' ''libbar'' (Some True)],
     libreports =
       [LibReport 1 1 ''openSUSE_Factory'' ''libfoo.so.1'' ''standard'' ''libfoo.so.1'' ''x86_64''
          ''report-1.html'' True,
        LibReport 2 2 ''openSUSE_Factory'' ''libbar.so.1'' ''standard'' ''libbar.so.1'' ''x86_64''
          ''report-2.html'' True]\<rparr>"

definition c8_bot :: bot where
  "c8_bot = bot0\<lparr>reports :=
     [Report ''home:dev'' ''libfoo'' (Some ''3'') ''openSUSE:Factory'' ''libfoo''
        [LibResult ''openSUSE_Factory'' ''libfoo.so.1'' ''standard'' ''libfoo.so.1'' ''x86_64''
           ''report-3.html'' False,
         LibResult ''openSUSE_Factory'' ''libfoo.so.1'' ''standard'' ''libfoo.so.1'' ''i586''
           ''report-4.html'' True]
        (Some False)]\<rparr>"

text \<open>
  An archive of one file and the trailer entry: the file \<^verbatim>\<open>hello.txt\<close> with the three
  bytes \<^verbatim>\<open>hi\n\<close>. An entry is the magic, thirteen fields of eight hexadecimal digits,
  the name with its final zero byte, padded to a multiple of four, and the payload, padded
  likewise.
\<close>

definition newc_entry :: "string list \<Rightarrow> string \<Rightarrow> string \<Rightarrow> string" where
  "newc_entry hexfields name_padded payload_padded =
     ''070701'' @ concat hexfields @ name_padded @ payload_padded"

definition c6_archive :: string where
  "c6_archive =
     newc_entry [''00000001'', ''000081A4'', ''00000000'', ''00000000'', ''00000001'', ''00000000'',
                 ''00000003'', ''00000000'', ''00000000'', ''00000000'', ''00000000'', ''0000000A'',
                 ''00000000'']
       (''hello.txt'' @ [CHR 0x00]) (''hi'' @ [CHR 0x0A, CHR 0x00])
     @ newc_entry [''00000000'', ''00000000'', ''00000000'', ''00000000'', ''00000001'', ''00000000'',
                   ''00000000'', ''00000000'', ''00000000'', ''00000000'', ''00000000'', ''0000000B'',
                   ''00000000'']
         (''TRAILER!!!'' @ [CHR 0x00, CHR 0x00, CHR 0x00, CHR 0x00]) []"

lemmas ex_defs = no_obs_def ex_src_def ex_dst_def build_result_def

section \<open>Repository matching\<close>

text \<open>
  Claim C1: \<^verbatim>\<open>findrepos\<close> raises NoBuildSuccess whenever the (source repository, arch)
  of a matched triple is missing from the report of successful builds. The code does not
  do that: its last loop looks up \<^verbatim>\<open>(mr.srcrepo, arch)\<close> with the variable \<^verbatim>\<open>arch\<close>
  that the matching loops left behind. On the input below the triple for \<^verbatim>\<open>x86_64\<close> is
  matched, \<^verbatim>\<open>(openSUSE_Factory, x86_64)\<close> is not in the report, and \<^verbatim>\<open>findrepos\<close>
  returns both triples without raising, since the last architecture visited was
  \<^verbatim>\<open>i586\<close>.
\<close>

theorem findrepos_checks_last_arch_only:
  "findrepos c1_api ''home:dev'' ex_src ''openSUSE:Factory'' ex_dst [] =
     (Inr (Some [MR ''openSUSE_Factory'' ''standard'' ''x86_64'',
                 MR ''openSUSE_Factory'' ''standard'' ''i586'']), [])
   \<and> get_buildsuccess_repos c1_api ''home:dev'' ''openSUSE:Factory'' (package ex_src)
         (verifymd5 ex_src) = Some [(''openSUSE_Factory'', ''i586'')]"
  by (simp add: findrepos_def c1_api_def ex_defs ensure_settled_def build_rmap_def
        set_add_def Let_def)

subsection \<open>The settledness check\<close>

lemma settled_loop_ok:
  "(fst (settled_loop sp pkg rmap mrs lg) = Inr ()) = (\<forall>mr\<in>set mrs. triple_settled rmap mr)"
  by (induction mrs) (auto simp: triple_settled_def split: option.splits)

lemma settled_loop_head_settled:
  "triple_settled rmap mr \<Longrightarrow>
     settled_loop sp pkg rmap (mr # mrs) lg = settled_loop sp pkg rmap mrs lg"
  by (auto simp: triple_settled_def split: option.splits)

lemma settled_loop_head_broken:
  "triple_broken rmap mr \<Longrightarrow>
     fst (settled_loop sp pkg rmap (mr # mrs) lg) = Inl (SourceBroken sp pkg)"
  by (auto simp: triple_broken_def split: option.splits)

lemma settled_loop_head_other:
  "\<not> triple_settled rmap mr \<Longrightarrow> \<not> triple_broken rmap mr \<Longrightarrow>
     \<exists>reason. fst (settled_loop sp pkg rmap (mr # mrs) lg) = Inl (NotReadyYet sp pkg reason)"
  by (auto simp: triple_broken_def triple_settled_def split: option.splits)

lemma settled_loop_prefix:
  "\<forall>m\<in>set pre. triple_settled rmap m \<Longrightarrow>
     settled_loop sp pkg rmap (pre @ rest) lg = settled_loop sp pkg rmap rest lg"
  by (induction pre) (simp_all add: settled_loop_head_settled del: settled_loop.simps)

lemma first_unsettled:
  "\<not> (\<forall>mr\<in>set mrs. triple_settled rmap mr) \<Longrightarrow>
     \<exists>pre mr post. mrs = pre @ mr # post \<and> (\<forall>m\<in>set pre. triple_settled rmap m)
        \<and> \<not> triple_settled rmap mr"
proof (induction mrs)
  case Nil
  then show ?case by simp
next
  case (Cons a mrs)
  show ?case
  proof (cases "triple_settled rmap a")
    case True
    with Cons.prems have "\<not> (\<forall>mr\<in>set mrs. triple_settled rmap mr)" by simp
    from Cons.IH [OF this] obtain pre mr post where
      "mrs = pre @ mr # post" "\<forall>m\<in>set pre. triple_settled rmap m" "\<not> triple_settled rmap mr"
      by blast
    with True have "a # mrs = (a # pre) @ mr # post \<and> (\<forall>m\<in>set (a # pre). triple_settled rmap m)
        \<and> \<not> triple_settled rmap mr" by simp
    then show ?thesis by blast
  next
    case False
    then have "a # mrs = [] @ a # mrs \<and> (\<forall>m\<in>set []. triple_settled rmap m)
        \<and> \<not> triple_settled rmap a" by simp
    then show ?thesis by blast
  qed
qed

lemma settled_loop_broken:
  "(fst (settled_loop sp pkg rmap mrs lg) = Inl (SourceBroken sp pkg)) =
   (\<exists>pre mr post. mrs = pre @ mr # post \<and> (\<forall>m\<in>set pre. triple_settled rmap m)
        \<and> triple_broken rmap mr)"
proof
  assume L: "fst (settled_loop sp pkg rmap mrs lg) = Inl (SourceBroken sp pkg)"
  then have "\<not> (\<forall>mr\<in>set mrs. triple_settled rmap mr)"
    using settled_loop_ok [of sp pkg rmap mrs lg] by simp
  from first_unsettled [OF this] obtain pre mr post where
    d: "mrs = pre @ mr # post" "\<forall>m\<in>set pre. triple_settled rmap m" "\<not> triple_settled rmap mr"
    by blast
  have "triple_broken rmap mr"
  proof (rule ccontr)
    assume "\<not> triple_broken rmap mr"
    from settled_loop_head_other [OF d(3) this, of sp pkg post lg]
    obtain reason where "fst (settled_loop sp pkg rmap (mr # post) lg) = Inl (NotReadyYet sp pkg reason)"
      by blast
    with L d(1) settled_loop_prefix [OF d(2), of sp pkg "mr # post" lg] show False by simp
  qed
  with d show "\<exists>pre mr post. mrs = pre @ mr # post \<and> (\<forall>m\<in>set pre. triple_settled rmap m)
        \<and> triple_broken rmap mr" by blast
next
  assume "\<exists>pre mr post. mrs = pre @ mr # post \<and> (\<forall>m\<in>set pre. triple_settled rmap m)
        \<and> triple_broken rmap mr"
  then obtain pre mr post where
    d: "mrs = pre @ mr # post" "\<forall>m\<in>set pre. triple_settled rmap m" "triple_broken rmap mr"
    by blast
  show "fst (settled_loop sp pkg rmap mrs lg) = Inl (SourceBroken sp pkg)"
    using d(1) settled_loop_prefix [OF d(2), of sp pkg "mr # post" lg]
      settled_loop_head_broken [OF d(3), of sp pkg post lg] by simp
qed

lemma settled_loop_notready:
  "(\<exists>reason. fst (settled_loop sp pkg rmap mrs lg) = Inl (NotReadyYet sp pkg reason)) =
   (\<exists>pre mr post. mrs = pre @ mr # post \<and> (\<forall>m\<in>set pre. triple_settled rmap m)
        \<and> \<not> triple_settled rmap mr \<and> \<not> triple_broken rmap mr)"
proof
  assume "\<exists>reason. fst (settled_loop sp pkg rmap mrs lg) = Inl (NotReadyYet sp pkg reason)"
  then obtain reason where L: "fst (settled_loop sp pkg rmap mrs lg) = Inl (NotReadyYet sp pkg reason)"
    by blast
  then have "\<not> (\<forall>mr\<in>set mrs. triple_settled rmap mr)"
    using settled_loop_ok [of sp pkg rmap mrs lg] by simp
  from first_unsettled [OF this] obtain pre mr post where
    d: "mrs = pre @ mr # post" "\<forall>m\<in>set pre. triple_settled rmap m" "\<not> triple_settled rmap mr"
    by blast
  have "\<not> triple_broken rmap mr"
  proof
    assume b: "triple_broken rmap mr"
    show False
      using L d(1) settled_loop_prefix [OF d(2), of sp pkg "mr # post" lg]
        settled_loop_head_broken [OF b, of sp pkg post lg] by simp
  qed
  with d show "\<exists>pre mr post. mrs = pre @ mr # post \<and> (\<forall>m\<in>set pre. triple_settled rmap m)
        \<and> \<not> triple_settled rmap mr \<and> \<not> triple_broken rmap mr" by blast
next
  assume "\<exists>pre mr post. mrs = pre @ mr # post \<and> (\<forall>m\<in>set pre. triple_settled rmap m)
        \<and> \<not> triple_settled rmap mr \<and> \<not> triple_broken rmap mr"
  then obtain pre mr post where
    d: "mrs = pre @ mr # post" "\<forall>m\<in>set pre. triple_settled rmap m"
       "\<not> triple_settled rmap mr" "\<not> triple_broken rmap mr"
    by blast
  from settled_loop_head_other [OF d(3) d(4), of sp pkg post lg]
  obtain reason where "fst (settled_loop sp pkg rmap (mr # post) lg) = Inl (NotReadyYet sp pkg reason)"
    by blast
  then show "\<exists>reason. fst (settled_loop sp pkg rmap mrs lg) = Inl (NotReadyYet sp pkg reason)"
    using d(1) settled_loop_prefix [OF d(2), of sp pkg "mr # post" lg] by auto
qed

text \<open>
  Claim C2, as the code has it: \<^verbatim>\<open>ensure_settled\<close> visits the matched triples in the
  order of the loop and the first triple that does not pass decides. It returns normally
  exactly when every triple passes; it raises SourceBroken exactly when the first triple
  that does not pass has a result that is not dirty with the code \<^verbatim>\<open>broken\<close>; and it
  raises NotReadyYet exactly when that triple has no result, is dirty, or has another code
  that is not final.
\<close>

theorem ensure_settled_first_unsettled_decides:
  "((fst (ensure_settled api sp si mrs lg) = Inr ()) =
      (\<forall>mr\<in>set mrs. triple_settled (rmap_of api sp si mrs) mr))
   \<and> ((fst (ensure_settled api sp si mrs lg) = Inl (SourceBroken sp (package si))) =
      (\<exists>pre mr post. mrs = pre @ mr # post
         \<and> (\<forall>m\<in>set pre. triple_settled (rmap_of api sp si mrs) m)
         \<and> triple_broken (rmap_of api sp si mrs) mr))
   \<and> ((\<exists>reason. fst (ensure_settled api sp si mrs lg) = Inl (NotReadyYet sp (package si) reason)) =
      (\<exists>pre mr post. mrs = pre @ mr # post
         \<and> (\<forall>m\<in>set pre. triple_settled (rmap_of api sp si mrs) m)
         \<and> \<not> triple_settled (rmap_of api sp si mrs) mr
         \<and> \<not> triple_broken (rmap_of api sp si mrs) mr))"
  unfolding ensure_settled_def rmap_of_def Let_def
  using settled_loop_ok settled_loop_broken settled_loop_notready by simp

lemma c2_rmap:
  "rmap_of c2_api ''home:dev'' ex_src mrs (''standard'', ''aarch64'') =
     Some (build_result ''standard'' ''aarch64'' False ''succeeded'')"
  "rmap_of c2_api ''home:dev'' ex_src mrs (''standard'', ''x86_64'') =
     Some (build_result ''standard'' ''x86_64'' False ''broken'')"
  by (simp_all add: rmap_of_def c2_api_def ex_defs build_rmap_def)

text \<open>
  An instance: \<^verbatim>\<open>aarch64\<close> passes, \<^verbatim>\<open>x86_64\<close> is broken and comes before the dirty
  \<^verbatim>\<open>i586\<close>, so SourceBroken is raised.
\<close>

theorem ensure_settled_first_unsettled_decides_witness:
  "fst (ensure_settled c2_api ''home:dev'' ex_src
          [MR ''standard'' ''standard'' ''aarch64'', MR ''standard'' ''standard'' ''x86_64'',
           MR ''standard'' ''standard'' ''i586''] [])
     = Inl (SourceBroken ''home:dev'' ''libfoo'')"
proof -
  let ?mrs = "[MR ''standard'' ''standard'' ''aarch64'', MR ''standard'' ''standard'' ''x86_64'',
               MR ''standard'' ''standard'' ''i586'']"
  have "?mrs = [MR ''standard'' ''standard'' ''aarch64''] @ MR ''standard'' ''standard'' ''x86_64''
                 # [MR ''standard'' ''standard'' ''i586'']
        \<and> (\<forall>m\<in>set [MR ''standard'' ''standard'' ''aarch64''].
              triple_settled (rmap_of c2_api ''home:dev'' ex_src ?mrs) m)
        \<and> triple_broken (rmap_of c2_api ''home:dev'' ex_src ?mrs) (MR ''standard'' ''standard'' ''x86_64'')"
    by (simp add: triple_settled_def triple_broken_def c2_rmap) (simp add: build_result_def)
  then have "\<exists>pre mr post. ?mrs = pre @ mr # post
         \<and> (\<forall>m\<in>set pre. triple_settled (rmap_of c2_api ''home:dev'' ex_src ?mrs) m)
         \<and> triple_broken (rmap_of c2_api ''home:dev'' ex_src ?mrs) mr"
    by blast
  with ensure_settled_first_unsettled_decides [of c2_api "''home:dev''" ex_src ?mrs "[]"]
  show ?thesis by (simp add: ex_src_def)
qed

text \<open>
  Claim C2 as stated fails: a broken triple does not give SourceBroken when its own result
  is dirty (\<^verbatim>\<open>s390x\<close>), nor when a dirty triple is visited before it (\<^verbatim>\<open>i586\<close> before
  \<^verbatim>\<open>x86_64\<close>); NotReadyYet is raised in both runs.
\<close>

theorem ensure_settled_broken_no_precedence:
  "fst (ensure_settled c2_api ''home:dev'' ex_src [MR ''standard'' ''standard'' ''s390x''] [])
     = Inl (NotReadyYet ''home:dev'' ''libfoo'' ''dirty'')
   \<and> map_option res_code
         (rmap_of c2_api ''home:dev'' ex_src [MR ''standard'' ''standard'' ''s390x'']
            (''standard'', ''s390x'')) = Some ''broken''
   \<and> fst (ensure_settled c2_api ''home:dev'' ex_src
            [MR ''standard'' ''standard'' ''i586'', MR ''standard'' ''standard'' ''x86_64''] [])
     = Inl (NotReadyYet ''home:dev'' ''libfoo'' ''dirty'')
   \<and> map_option res_code
         (rmap_of c2_api ''home:dev'' ex_src
            [MR ''standard'' ''standard'' ''i586'', MR ''standard'' ''standard'' ''x86_64'']
            (''standard'', ''x86_64'')) = Some ''broken''"
  by (simp add: ensure_settled_def rmap_of_def c2_api_def ex_defs build_rmap_def Let_def)

section \<open>The loop over the matched triples\<close>

subsection \<open>The overall result follows the dominance rule\<close>

lemma diff_pair_step:
  assumes "diff_pair t sp spk dp dpk mr dd sd (b, l) p = (e, (b', l'))"
  shows "libresults l' = libresults l @ recorded l l'
       \<and> verdict_of (overall l') = foldl dominate (verdict_of (overall l)) (map lib_verdict (recorded l l'))"
  using assms
  by (auto simp: diff_pair_def compare_failed_def Let_def verdict_of_def lib_verdict_def recorded_def
      split: option.splits prod.splits if_splits bool.splits)

lemma recorded_trans:
  assumes "libresults l1 = libresults l @ recorded l l1"
      and "libresults l2 = libresults l1 @ recorded l1 l2"
  shows "recorded l l2 = recorded l l1 @ recorded l1 l2"
    and "libresults l2 = libresults l @ recorded l l2"
proof -
  have "libresults l2 = libresults l @ (recorded l l1 @ recorded l1 l2)"
    using assms by simp
  then show "recorded l l2 = recorded l l1 @ recorded l1 l2"
    unfolding recorded_def [of l l2] by simp
  then show "libresults l2 = libresults l @ recorded l l2"
    using assms by simp
qed

lemma diff_pairs_run:
  assumes "diff_pairs t sp spk dp dpk mr dd sd (b, l) ps = (e, (b', l'))"
  shows "libresults l' = libresults l @ recorded l l'
       \<and> verdict_of (overall l') = foldl dominate (verdict_of (overall l)) (map lib_verdict (recorded l l'))"
  using assms
proof (induction ps arbitrary: b l)
  case Nil
  then show ?case by (simp add: recorded_def)
next
  case (Cons p ps)
  obtain e1 b1 l1 where s1: "diff_pair t sp spk dp dpk mr dd sd (b, l) p = (e1, (b1, l1))"
    by (metis prod.exhaust)
  note st = diff_pair_step [OF s1]
  show ?case
  proof (cases e1)
    case (Some err)
    with Cons.prems s1 have "l' = l1" by simp
    with st show ?thesis by simp
  next
    case None
    with Cons.prems s1 have "diff_pairs t sp spk dp dpk mr dd sd (b1, l1) ps = (e, (b', l'))"
      by simp
    note ih = Cons.IH [OF this]
    from recorded_trans [of l1 l l'] st ih
    have "recorded l l' = recorded l l1 @ recorded l1 l'" "libresults l' = libresults l @ recorded l l'"
      by simp_all
    with st ih show ?thesis by simp
  qed
qed


lemma extract_failed_step:
  assumes "extract_failed what err (b, l) = (e, (b', l'))"
  shows "libresults l' = libresults l \<and> overall l' = overall l"
  using assms by (auto simp: extract_failed_def split: error.splits)

lemma process_repo_step:
  assumes "process_repo t sp spk ssi dp dpk dsi (b, l) mr = (e, (b', l'))"
  shows "libresults l' = libresults l @ recorded l l'
       \<and> verdict_of (overall l') = foldl dominate (verdict_of (overall l)) (map lib_verdict (recorded l l'))"
proof (cases "extract_libs t dp dpk dsi (dstrepo mr) (arch mr)")
  case (Inl err)
  with assms have "extract_failed (dp @ ''/'' @ dpk @ '' '' @ dstrepo mr @ ''/'' @ arch mr) err (b, l) = (e, (b', l'))"
    by (simp add: process_repo_def)
  from extract_failed_step [OF this] show ?thesis by (simp add: recorded_def)
next
  case (Inr dst)
  show ?thesis
  proof (cases dst)
    case None
    with Inr assms show ?thesis by (simp add: process_repo_def recorded_def)
  next
    case (Some dl)
    obtain dst_libs dst_libdebug where dl: "dl = (dst_libs, dst_libdebug)" by (cases dl)
    show ?thesis
    proof (cases "extract_libs t sp spk ssi (srcrepo mr) (arch mr)")
      case (Inl err)
      with Inr Some dl assms
      have "extract_failed (sp @ ''/'' @ spk @ '' '' @ srcrepo mr @ ''/'' @ arch mr) err (b, l) = (e, (b', l'))"
        by (simp add: process_repo_def)
      from extract_failed_step [OF this] show ?thesis by (simp add: recorded_def)
    next
      case src: (Inr src)
      show ?thesis
      proof (cases src)
        case None
        with src Inr Some dl assms show ?thesis
          by (auto simp: process_repo_def recorded_def split: if_splits)
      next
        case sl: (Some sl)
        obtain src_libs src_libdebug where sl': "sl = (src_libs, src_libdebug)" by (cases sl)
        obtain pairs summary where pl: "pair_libs dst_libs src_libs (text_summary b) = (pairs, summary)"
          by (cases "pair_libs dst_libs src_libs (text_summary b)")
        from src sl sl' Inr Some dl pl assms
        have "diff_pairs t sp spk dp dpk mr dst_libdebug src_libdebug (b\<lparr>text_summary := summary\<rparr>, l) pairs
                = (e, (b', l'))"
          by (simp add: process_repo_def)
        from diff_pairs_run [OF this] show ?thesis .
      qed
    qed
  qed
qed

lemma process_repos_run:
  assumes "process_repos t sp spk ssi dp dpk dsi (b, l) mrs = (e, (b', l'))"
  shows "libresults l' = libresults l @ recorded l l'
       \<and> verdict_of (overall l') = foldl dominate (verdict_of (overall l)) (map lib_verdict (recorded l l'))"
  using assms
proof (induction mrs arbitrary: b l)
  case Nil
  then show ?case by (simp add: recorded_def)
next
  case (Cons mr mrs)
  obtain e1 b1 l1 where s1: "process_repo t sp spk ssi dp dpk dsi (b, l) mr = (e1, (b1, l1))"
    by (metis prod.exhaust)
  note st = process_repo_step [OF s1]
  show ?case
  proof (cases e1)
    case (Some err)
    with Cons.prems s1 have "l' = l1" by simp
    with st show ?thesis by simp
  next
    case None
    with Cons.prems s1 have "process_repos t sp spk ssi dp dpk dsi (b1, l1) mrs = (e, (b', l'))"
      by simp
    note ih = Cons.IH [OF this]
    from recorded_trans [of l1 l l'] st ih
    have "recorded l l' = recorded l l1 @ recorded l1 l'" "libresults l' = libresults l @ recorded l l'"
      by simp_all
    with st ih show ?thesis by simp
  qed
qed

lemma dominate_Incompatible: "foldl dominate Incompatible vs = Incompatible"
  by (induction vs) simp_all

lemma verdict_of_False: "(verdict_of r = Incompatible) = (r = Some False)"
  by (auto simp: verdict_of_def split: option.splits bool.splits)

text \<open>
  Claim C3: whatever the tools answer, a run over matched triples appends results to
  \<^verbatim>\<open>libresults\<close> and leaves \<^verbatim>\<open>overall\<close> at the verdict that dominates the verdict
  before the run and the outcomes recorded by the run, taken in their order (pairs with the
  outcome Unknown record nothing and change nothing). So once \<^verbatim>\<open>overall\<close> is False
  (Incompatible) it stays False, and the outcomes Compatible, Compatible, Incompatible,
  Compatible end with \<^verbatim>\<open>overall = False\<close>.
\<close>

theorem overall_follows_dominance:
  assumes "process_repos t sp spk ssi dp dpk dsi (b, l) mrs = (e, (b', l'))"
  shows "libresults l' = libresults l @ recorded l l'
       \<and> verdict_of (overall l') =
           foldl dominate (verdict_of (overall l)) (map lib_verdict (recorded l l'))
       \<and> (overall l = Some False \<longrightarrow> overall l' = Some False)
       \<and> (map lib_verdict (recorded l l') = [Compatible, Compatible, Incompatible, Compatible]
            \<longrightarrow> overall l' = Some False)"
proof -
  note run = process_repos_run [OF assms]
  have a: "overall l = Some False \<longrightarrow> overall l' = Some False"
  proof
    assume "overall l = Some False"
    then have "verdict_of (overall l) = Incompatible" by (simp add: verdict_of_False)
    with run have "verdict_of (overall l') = Incompatible" by (simp add: dominate_Incompatible)
    then show "overall l' = Some False" by (simp add: verdict_of_False)
  qed
  have b: "map lib_verdict (recorded l l') = [Compatible, Compatible, Incompatible, Compatible]
            \<longrightarrow> overall l' = Some False"
  proof
    assume "map lib_verdict (recorded l l') = [Compatible, Compatible, Incompatible, Compatible]"
    with run have "verdict_of (overall l') = Incompatible"
      by (cases "verdict_of (overall l)") simp_all
    then show "overall l' = Some False" by (simp add: verdict_of_False)
  qed
  from run a b show ?thesis by simp
qed

lemma diff_pair_compared:
  assumes "so_re_match old = Some libname"
      and "map_of dd old = Some od" and "map_of sd new = Some nd"
      and "popen_wait t (dumper_cmd (old_dump t) (unpack_base t dp dpk (dstrepo mr) (arch mr)) old od) = 0"
      and "popen_wait t (dumper_cmd (new_dump t) (unpack_base t sp spk (srcrepo mr) (arch mr)) new nd) = 0"
      and "popen_wait t (checker_cmd libname (old_dump t) (new_dump t)
             (path_join (cachedir t) [htmlreport_name t mr old new])) = code"
  shows "diff_pair t sp spk dp dpk mr dd sd (b, l) (old, new) =
     (if code = 0 \<or> code = 1 then
        (None, (b, l\<lparr>libresults := libresults l @
                        [LibResult (srcrepo mr) (basename old) (dstrepo mr) (basename new) (arch mr)
                           (htmlreport_name t mr old new) (code = 0)],
                     overall := (if overall l = None then Some (code = 0)
                                 else if overall l = Some True \<and> code \<noteq> 0 then Some False
                                 else overall l)\<rparr>))
      else (None, (b\<lparr>logged := logged b @ [(ERROR, ''abi-compliance-checker failed'')]\<rparr>, l)))"
  using assms
  by (auto simp: diff_pair_def run_abi_dumper_def run_abi_checker_def Let_def)

lemma c3_so_re:
  "so_re_match ''/usr/lib64/liba.so.1'' = Some ''a''"
  "so_re_match ''/usr/lib64/libb.so.1'' = Some ''b''"
  "so_re_match ''/usr/lib64/libc.so.1'' = Some ''c''"
  "so_re_match ''/usr/lib64/libd.so.1'' = Some ''d''"
  by (simp_all add: so_re_match_def strip_prefix_def)

lemma c3_pairs: "pair_libs four_libs four_libs s = (map (\<lambda>(l, a). (l, l)) four_libs, s)"
  by (simp add: pair_libs_def pair_lib_def four_libs_def set_add_def)

lemma popen_dumper: "popen_wait (tools_with ex code_of) (dumper_cmd out base fn dbg) = 0"
  by (simp add: tools_with_def dumper_cmd_def)

lemma popen_checker: "popen_wait (tools_with ex code_of) (checker_cmd libname old new out) = code_of libname"
  by (simp add: tools_with_def checker_cmd_def)

lemma extract_tools_with: "extract_libs (tools_with ex code_of) prj pkg si repo a = ex prj repo"
  by (simp add: tools_with_def)

lemma c3_popen_dumper: "popen_wait c3_tools (dumper_cmd out base fn dbg) = 0"
  by (simp add: c3_tools_def popen_dumper)

lemma c3_popen_checker:
  "popen_wait c3_tools (checker_cmd libname old new out) = (if libname = ''c'' then 1 else 0)"
  by (simp add: c3_tools_def popen_checker)

lemma c7_popen_dumper: "popen_wait c7_tools (dumper_cmd out base fn dbg) = 0"
  by (simp add: c7_tools_def popen_dumper)

lemma c7_popen_checker:
  "popen_wait c7_tools (checker_cmd libname old new out)
     = (if libname = ''a'' then 0 else if libname = ''b'' then 1 else 2)"
  by (simp add: c7_tools_def popen_checker)

lemma c3_extract: "extract_libs c3_tools prj pkg si repo a = Inr (Some (four_libs, four_debugs))"
  by (simp add: c3_tools_def extract_tools_with)

lemma c3_debugs:
  "map_of four_debugs ''/usr/lib64/liba.so.1'' = Some ''/usr/lib/debug/usr/lib64/liba.so.1.debug''"
  "map_of four_debugs ''/usr/lib64/libb.so.1'' = Some ''/usr/lib/debug/usr/lib64/libb.so.1.debug''"
  "map_of four_debugs ''/usr/lib64/libc.so.1'' = Some ''/usr/lib/debug/usr/lib64/libc.so.1.debug''"
  "map_of four_debugs ''/usr/lib64/libd.so.1'' = Some ''/usr/lib/debug/usr/lib64/libd.so.1.debug''"
  by (simp_all add: four_debugs_def four_libs_def)

lemma c3_results:
  "fst c3_run = None \<and> map lib_result (libresults (snd (snd c3_run))) = [True, True, False, True]"
  unfolding c3_run_def
  by (simp add: process_repo_def c3_extract c3_pairs bot0_def locals0_def
        diff_pair_compared [OF c3_so_re(1) c3_debugs(1) c3_debugs(1) c3_popen_dumper c3_popen_dumper c3_popen_checker]
        diff_pair_compared [OF c3_so_re(2) c3_debugs(2) c3_debugs(2) c3_popen_dumper c3_popen_dumper c3_popen_checker]
        diff_pair_compared [OF c3_so_re(3) c3_debugs(3) c3_debugs(3) c3_popen_dumper c3_popen_dumper c3_popen_checker]
        diff_pair_compared [OF c3_so_re(4) c3_debugs(4) c3_debugs(4) c3_popen_dumper c3_popen_dumper c3_popen_checker])
    (simp add: four_libs_def
        diff_pair_compared [OF c3_so_re(1) c3_debugs(1) c3_debugs(1) c3_popen_dumper c3_popen_dumper c3_popen_checker]
        diff_pair_compared [OF c3_so_re(2) c3_debugs(2) c3_debugs(2) c3_popen_dumper c3_popen_dumper c3_popen_checker]
        diff_pair_compared [OF c3_so_re(3) c3_debugs(3) c3_debugs(3) c3_popen_dumper c3_popen_dumper c3_popen_checker]
        diff_pair_compared [OF c3_so_re(4) c3_debugs(4) c3_debugs(4) c3_popen_dumper c3_popen_dumper c3_popen_checker])


text \<open>
  A run of the code with these four outcomes: one matched triple, four libraries, of which
  the compare tool finds the third incompatible.
\<close>

theorem overall_follows_dominance_witness:
  "map lib_verdict (recorded locals0 (snd (snd c3_run)))
     = [Compatible, Compatible, Incompatible, Compatible]
   \<and> overall (snd (snd c3_run)) = Some False"
proof -
  have run: "process_repos c3_tools ''home:dev'' ''libfoo'' ex_src ''openSUSE:Factory'' ''libfoo'' ex_dst
               (bot0, locals0) [MR ''openSUSE_Factory'' ''standard'' ''x86_64'']
             = (fst c3_run, (fst (snd c3_run), snd (snd c3_run)))"
    by (simp add: c3_run_def)
  have "recorded locals0 (snd (snd c3_run)) = libresults (snd (snd c3_run))"
    by (simp add: recorded_def locals0_def)
  with c3_results
  have seq: "map lib_verdict (recorded locals0 (snd (snd c3_run)))
               = [Compatible, Compatible, Incompatible, Compatible]"
    by (simp add: lib_verdict_def verdict_of_def list_eq_iff_nth_eq nth_Cons split: nat.splits)
  with overall_follows_dominance [OF run] show ?thesis by simp
qed

subsection \<open>The exit code of the compare tool\<close>

text \<open>
  Claim C7: when the name of the old library matches \<^verbatim>\<open>so_re\<close>, both libraries have a
  debug file and both dumps succeed, the compare tool is run. Its exit code 0 makes
  \<^verbatim>\<open>run_abi_checker\<close> return True and records a \<^verbatim>\<open>LibResult\<close> with the result True,
  the exit code 1 returns False and records one with the result False, and any other exit
  code returns None and records nothing: the local variables stay as they were.
\<close>

theorem compare_exit_code_decides:
  assumes "so_re_match old = Some libname"
      and "map_of dst_libdebug old = Some old_debug"
      and "map_of src_libdebug new = Some new_debug"
      and "popen_wait t (dumper_cmd (old_dump t)
             (unpack_base t dst_project dst_package (dstrepo mr) (arch mr)) old old_debug) = 0"
      and "popen_wait t (dumper_cmd (new_dump t)
             (unpack_base t src_project src_package (srcrepo mr) (arch mr)) new new_debug) = 0"
      and "popen_wait t (checker_cmd libname (old_dump t) (new_dump t)
             (path_join (cachedir t) [htmlreport_name t mr old new])) = code"
      and "diff_pair t src_project src_package dst_project dst_package mr dst_libdebug src_libdebug
             (b, l) (old, new) = (e, (b', l'))"
  shows "fst (run_abi_checker t libname (old_dump t) (new_dump t)
                (path_join (cachedir t) [htmlreport_name t mr old new]))
           = (if code = 0 then Some True else if code = 1 then Some False else None)
       \<and> e = None
       \<and> (code = 0 \<longrightarrow>
            libresults l' = libresults l @
              [LibResult (srcrepo mr) (basename old) (dstrepo mr) (basename new) (arch mr)
                 (htmlreport_name t mr old new) True])
       \<and> (code = 1 \<longrightarrow>
            libresults l' = libresults l @
              [LibResult (srcrepo mr) (basename old) (dstrepo mr) (basename new) (arch mr)
                 (htmlreport_name t mr old new) False])
       \<and> (code \<noteq> 0 \<and> code \<noteq> 1 \<longrightarrow> l' = l)"
proof -
  have "fst (run_abi_checker t libname (old_dump t) (new_dump t)
                (path_join (cachedir t) [htmlreport_name t mr old new]))
           = (if code = 0 then Some True else if code = 1 then Some False else None)"
    using assms(6) by (simp add: run_abi_checker_def Let_def)
  moreover note diff_pair_compared [OF assms(1-6), of b l]
  ultimately show ?thesis using assms(7) by (auto split: if_splits)
qed

lemma c7_pair:
  assumes "so_re_match lib = Some libname" "map_of four_debugs lib = Some dbg"
  shows "diff_pair c7_tools ''home:dev'' ''libfoo'' ''openSUSE:Factory'' ''libfoo''
           (MR ''openSUSE_Factory'' ''standard'' ''x86_64'') four_debugs four_debugs (bot0, locals0) (lib, lib)
         = (fst (diff_pair c7_tools ''home:dev'' ''libfoo'' ''openSUSE:Factory'' ''libfoo''
           (MR ''openSUSE_Factory'' ''standard'' ''x86_64'') four_debugs four_debugs (bot0, locals0) (lib, lib)),
            fst (snd (diff_pair c7_tools ''home:dev'' ''libfoo'' ''openSUSE:Factory'' ''libfoo''
           (MR ''openSUSE_Factory'' ''standard'' ''x86_64'') four_debugs four_debugs (bot0, locals0) (lib, lib))),
            snd (snd (diff_pair c7_tools ''home:dev'' ''libfoo'' ''openSUSE:Factory'' ''libfoo''
           (MR ''openSUSE_Factory'' ''standard'' ''x86_64'') four_debugs four_debugs (bot0, locals0) (lib, lib))))"
  by simp

theorem compare_exit_code_decides_witness:
  "map lib_result (libresults (snd (snd
      (diff_pair c7_tools ''home:dev'' ''libfoo'' ''openSUSE:Factory'' ''libfoo''
         (MR ''openSUSE_Factory'' ''standard'' ''x86_64'') four_debugs four_debugs (bot0, locals0)
         (''/usr/lib64/liba.so.1'', ''/usr/lib64/liba.so.1''))))) = [True]
   \<and> map lib_result (libresults (snd (snd
      (diff_pair c7_tools ''home:dev'' ''libfoo'' ''openSUSE:Factory'' ''libfoo''
         (MR ''openSUSE_Factory'' ''standard'' ''x86_64'') four_debugs four_debugs (bot0, locals0)
         (''/usr/lib64/libb.so.1'', ''/usr/lib64/libb.so.1''))))) = [False]
   \<and> snd (snd
      (diff_pair c7_tools ''home:dev'' ''libfoo'' ''openSUSE:Factory'' ''libfoo''
         (MR ''openSUSE_Factory'' ''standard'' ''x86_64'') four_debugs four_debugs (bot0, locals0)
         (''/usr/lib64/libc.so.1'', ''/usr/lib64/libc.so.1''))) = locals0"
proof -
  note d = c7_popen_dumper
  note c = c7_popen_checker
  note a = compare_exit_code_decides [OF c3_so_re(1) c3_debugs(1) c3_debugs(1) d d c
             c7_pair [OF c3_so_re(1) c3_debugs(1)]]
  note b = compare_exit_code_decides [OF c3_so_re(2) c3_debugs(2) c3_debugs(2) d d c
             c7_pair [OF c3_so_re(2) c3_debugs(2)]]
  note c = compare_exit_code_decides [OF c3_so_re(3) c3_debugs(3) c3_debugs(3) d d c
             c7_pair [OF c3_so_re(3) c3_debugs(3)]]
  from a b c show ?thesis by (simp add: locals0_def)
qed

subsection \<open>Failures that ask for another look\<close>





section \<open>Pairing the libraries\<close>

lemma index_libs_add_alias:
  "index_libs (add_alias lib m a') a = index_libs m a \<union> (if a = a' then {lib} else {})"
  by (auto simp: index_libs_def add_alias_def set_add_def split: option.splits)

lemma index_libs_add_aliases:
  "index_libs (foldl (add_alias lib) m as) a = index_libs m a \<union> (if a \<in> set as then {lib} else {})"
  by (induction as arbitrary: m) (auto simp: index_libs_add_alias)

lemma index_libs_fold:
  "index_libs (foldl (\<lambda>src_aliases lib. foldl (add_alias lib) src_aliases (lib_aliases src_libs lib)) m libs) a
     = index_libs m a \<union> {lib \<in> set libs. a \<in> set (lib_aliases src_libs lib)}"
  by (induction libs arbitrary: m) (auto simp: index_libs_add_aliases)

lemma index_libs_reverse_index:
  "index_libs (reverse_index src_libs) a
     = {lib \<in> fst ` set src_libs. a \<in> set (lib_aliases src_libs lib)}"
  by (simp add: reverse_index_def index_libs_fold) (simp add: index_libs_def)

lemma pair_alias_inner:
  "foldl (\<lambda>(pairs, found) l. (set_add (lib, l) pairs, True)) (pairs, found) ls = (pairs', found')
   \<Longrightarrow> set pairs' = set pairs \<union> {lib} \<times> set ls \<and> found' = (found \<or> ls \<noteq> [])"
  by (induction ls arbitrary: pairs found) (auto simp: set_add_def split: if_splits)

lemma pair_alias_step:
  assumes "pair_alias lib m (pairs, found) a = (pairs', found')"
  shows "set pairs' = set pairs \<union> {lib} \<times> index_libs m a
       \<and> found' = (found \<or> index_libs m a \<noteq> {})"
proof (cases "m a")
  case None
  with assms show ?thesis by (simp add: pair_alias_def index_libs_def)
next
  case (Some ls)
  with assms have "foldl (\<lambda>(pairs, found) l. (set_add (lib, l) pairs, True)) (pairs, found) ls = (pairs', found')"
    by (simp add: pair_alias_def)
  from pair_alias_inner [OF this] Some show ?thesis by (simp add: index_libs_def)
qed

lemma pair_aliases_run:
  assumes "foldl (pair_alias lib m) (pairs, found) as = (pairs', found')"
  shows "set pairs' = set pairs \<union> {lib} \<times> (\<Union>a\<in>set as. index_libs m a)
       \<and> found' = (found \<or> (\<Union>a\<in>set as. index_libs m a) \<noteq> {})"
  using assms
proof (induction as arbitrary: pairs found)
  case Nil
  then show ?case by simp
next
  case (Cons a as)
  obtain p1 f1 where s: "pair_alias lib m (pairs, found) a = (p1, f1)"
    by (cases "pair_alias lib m (pairs, found) a")
  with Cons.prems have "foldl (pair_alias lib m) (p1, f1) as = (pairs', found')" by simp
  from Cons.IH [OF this] pair_alias_step [OF s] show ?case by auto
qed

lemma pair_lib_step:
  assumes "pair_lib dst_libs src_libs (reverse_index src_libs) (pairs, summary) lib = (pairs', summary')"
  shows "set pairs' = set pairs \<union> {lib} \<times> partners dst_libs src_libs lib
       \<and> summary' = summary @ warning_for dst_libs src_libs lib"
proof (cases "lib \<in> fst ` set src_libs")
  case True
  with assms show ?thesis
    by (auto simp: pair_lib_def partners_def warning_for_def set_add_def split: if_splits)
next
  case False
  obtain p1 f1 where f: "foldl (pair_alias lib (reverse_index src_libs)) (pairs, False)
                            (lib_aliases dst_libs lib) = (p1, f1)"
    by (cases "foldl (pair_alias lib (reverse_index src_libs)) (pairs, False) (lib_aliases dst_libs lib)")
  have u: "(\<Union>a\<in>set (lib_aliases dst_libs lib). index_libs (reverse_index src_libs) a)
             = partners dst_libs src_libs lib"
    using False by (auto simp: index_libs_reverse_index partners_def)
  from pair_aliases_run [OF f] u
  have "set p1 = set pairs \<union> {lib} \<times> partners dst_libs src_libs lib"
       "f1 = (partners dst_libs src_libs lib \<noteq> {})" by simp_all
  with assms f False show ?thesis
    by (cases "partners dst_libs src_libs lib = {}") (simp_all add: pair_lib_def warning_for_def)
qed

lemma pair_libs_fold:
  assumes "foldl (pair_lib dst_libs src_libs (reverse_index src_libs)) (pairs, summary) libs
             = (pairs', summary')"
  shows "set pairs' = set pairs \<union> (\<Union>lib\<in>set libs. {lib} \<times> partners dst_libs src_libs lib)
       \<and> summary' = summary @ concat (map (warning_for dst_libs src_libs) libs)"
  using assms
proof (induction libs arbitrary: pairs summary)
  case Nil
  then show ?case by simp
next
  case (Cons lib libs)
  obtain p1 s1 where s: "pair_lib dst_libs src_libs (reverse_index src_libs) (pairs, summary) lib = (p1, s1)"
    by (cases "pair_lib dst_libs src_libs (reverse_index src_libs) (pairs, summary) lib")
  with Cons.prems
  have "foldl (pair_lib dst_libs src_libs (reverse_index src_libs)) (p1, s1) libs = (pairs', summary')"
    by simp
  from Cons.IH [OF this] pair_lib_step [OF s] show ?case by auto
qed

text \<open>
  Claim C5, as the code has it: a library of the destination is paired with its partners.
  The source library of the same path is its only partner if there is one; otherwise its
  partners are the source libraries that carry one of the aliases of the destination
  library among their own aliases. The path of the destination library itself is never
  looked up among the aliases of the source, and a library without a partner adds a
  warning to the summary.
\<close>

theorem pairs_need_a_shared_alias:
  "((d, s) \<in> set (fst (pair_libs dst_libs src_libs summary)))
     = (d \<in> fst ` set dst_libs \<and> s \<in> partners dst_libs src_libs d)
   \<and> snd (pair_libs dst_libs src_libs summary)
     = summary @ concat (map (warning_for dst_libs src_libs) (map fst dst_libs))"
proof -
  obtain pairs' summary' where r: "pair_libs dst_libs src_libs summary = (pairs', summary')"
    by (cases "pair_libs dst_libs src_libs summary")
  then have "foldl (pair_lib dst_libs src_libs (reverse_index src_libs)) ([], summary) (map fst dst_libs)
               = (pairs', summary')"
    by (simp add: pair_libs_def)
  from pair_libs_fold [OF this] r show ?thesis by auto
qed

text \<open>
  Two instances: a shared alias \<^verbatim>\<open>liba.so\<close> pairs \<^verbatim>\<open>liba.so.1\<close> with
  \<^verbatim>\<open>liba.so.2\<close>; the libraries of the claim give no pair and one warning.
\<close>

theorem pairs_need_a_shared_alias_witness:
  "set (fst (pair_libs c5_dst_alias c5_src_alias [])) = {(''liba.so.1'', ''liba.so.2'')}
   \<and> set (fst (pair_libs c5_dst c5_src [])) = {}
   \<and> snd (pair_libs c5_dst c5_src []) = ''*Warning*: liba.so.1 no longer packaged'' @ nl @ nl"
proof -
  have p1: "partners c5_dst_alias c5_src_alias ''liba.so.1'' = {''liba.so.2''}"
    by (auto simp: partners_def c5_dst_alias_def c5_src_alias_def lib_aliases_def)
  have p2: "partners c5_dst c5_src ''liba.so.1'' = {}"
    by (auto simp: partners_def c5_dst_def c5_src_def lib_aliases_def)
  have "\<And>d s. ((d, s) \<in> set (fst (pair_libs c5_dst_alias c5_src_alias [])))
          = ((d, s) \<in> {(''liba.so.1'', ''liba.so.2'')})"
    using pairs_need_a_shared_alias [of _ _ c5_dst_alias c5_src_alias "[]"] p1
    by (auto simp: c5_dst_alias_def)
  then have a: "set (fst (pair_libs c5_dst_alias c5_src_alias [])) = {(''liba.so.1'', ''liba.so.2'')}"
    by auto
  have "\<And>d s. (d, s) \<notin> set (fst (pair_libs c5_dst c5_src []))"
    using pairs_need_a_shared_alias [of _ _ c5_dst c5_src "[]"] p2
    by (auto simp: c5_dst_def)
  then have "fst (pair_libs c5_dst c5_src []) = []"
    by (metis list.set_intros(1) neq_Nil_conv surj_pair)
  then have b: "set (fst (pair_libs c5_dst c5_src [])) = {}" by simp
  have w: "warning_for c5_dst c5_src ''liba.so.1'' = ''*Warning*: liba.so.1 no longer packaged'' @ nl @ nl"
    by (simp add: warning_for_def p2)
  have "map fst c5_dst = [''liba.so.1'']" by (simp add: c5_dst_def)
  with w have c: "snd (pair_libs c5_dst c5_src []) = ''*Warning*: liba.so.1 no longer packaged'' @ nl @ nl"
    using pairs_need_a_shared_alias [of undefined undefined c5_dst c5_src "[]"] by simp
  from a b c show ?thesis by simp
qed

text \<open>
  Claim C5 as stated fails: for \<^verbatim>\<open>dst = {"liba.so.1": {}}\<close> and
  \<^verbatim>\<open>src = {"liba.so.2": {"liba.so.1"}}\<close> the pairer produces no pair, and the warning.
\<close>

theorem pairer_ignores_source_alias_of_destination_name:
  "pair_libs c5_dst c5_src [] = ([], ''*Warning*: liba.so.1 no longer packaged'' @ nl @ nl)
   \<and> (''liba.so.1'', ''liba.so.2'') \<notin> set (fst (pair_libs c5_dst c5_src []))"
  by (simp add: pair_libs_def pair_lib_def c5_dst_def c5_src_def lib_aliases_def
        reverse_index_def add_alias_def set_add_def pair_alias_def)

section \<open>Maintenance incidents\<close>

lemma mapped_of_snoc:
  "mapped_of (originrepos @ [origin]) = (mapped_of originrepos)((dstrepo origin, arch origin) \<mapsto> origin)"
  by (simp add: mapped_of_def)

lemma mapped_of_Some:
  "mapped_of originrepos k = Some origin \<Longrightarrow>
     origin \<in> set originrepos \<and> (dstrepo origin, arch origin) = k"
proof (induction originrepos rule: rev_induct)
  case Nil
  then show ?case by (simp add: mapped_of_def)
next
  case (snoc x xs)
  then show ?case by (auto simp: mapped_of_snoc split: if_splits)
qed

lemma mapped_of_None:
  "(mapped_of originrepos k = None) = (\<forall>origin\<in>set originrepos. (dstrepo origin, arch origin) \<noteq> k)"
proof (induction originrepos rule: rev_induct)
  case Nil
  then show ?case by (simp add: mapped_of_def)
next
  case (snoc x xs)
  then show ?case by (auto simp: mapped_of_snoc)
qed

lemma remap_repos_run:
  assumes "remap_repos (mapped_of originrepos) op opk myrepos (ms, lg) = (ms', lg')"
  shows "set ms' = set ms \<union> {m. \<exists>mr\<in>set myrepos. remapped originrepos mr = Some m}
       \<and> lg' = lg @ map (unmapped_warning op opk)
                     (filter (\<lambda>mr. remapped originrepos mr = None) myrepos)"
  using assms
proof (induction myrepos arbitrary: ms lg)
  case Nil
  then show ?case by simp
next
  case (Cons mr myrepos)
  show ?case
  proof (cases "mapped_of originrepos (dstrepo mr, arch mr)")
    case None
    with Cons.prems
    have "remap_repos (mapped_of originrepos) op opk myrepos (ms, lg @ [unmapped_warning op opk mr])
            = (ms', lg')"
      by (simp add: unmapped_warning_def)
    from Cons.IH [OF this] None show ?thesis by (auto simp: remapped_def)
  next
    case (Some origin)
    with Cons.prems
    have "remap_repos (mapped_of originrepos) op opk myrepos
            (set_add (MR (srcrepo mr) (srcrepo origin) (arch mr)) ms, lg) = (ms', lg')"
      by simp
    from Cons.IH [OF this] Some show ?thesis by (auto simp: remapped_def set_add_def)
  qed
qed

lemma maintenance_hack_incident:
  assumes "maintenance_search api dst_project = Some mproject"
      and "get_originproject api dst_project (package dst_srcinfo) = None"
      and "get_linktarget api dst_project (package dst_srcinfo) = (Some dst_project, Some linkpkg)"
      and "incident_of linkpkg = Some incident"
      and "get_sourceinfo api (incident_project mproject incident)
             (incident_package (package dst_srcinfo) dst_project) None = Some origin_srcinfo"
      and "findrepos api (incident_project mproject incident) origin_srcinfo dst_project dst_srcinfo lg
             = (Inr (Some originrepos), lg1)"
  shows "maintenance_hack api dst_project dst_srcinfo myrepos lg =
           (Inr (Some (incident_project mproject incident),
                 Some (incident_package (package dst_srcinfo) dst_project), origin_srcinfo,
                 fst (remap_repos (mapped_of originrepos) (incident_project mproject incident)
                        (incident_package (package dst_srcinfo) dst_project) myrepos ([], lg1))),
            snd (remap_repos (mapped_of originrepos) (incident_project mproject incident)
                   (incident_package (package dst_srcinfo) dst_project) myrepos ([], lg1)))"
  using assms
  by (simp add: maintenance_hack_def Let_def incident_project_def incident_package_def
        split: prod.splits)

text \<open>
  Claim C9, as the code has it. When the destination package links to an incident and
  \<^verbatim>\<open>findrepos\<close> between the incident and the destination returns \<^verbatim>\<open>originrepos\<close>,
  \<^verbatim>\<open>_maintenance_hack\<close> returns without raising. A triple of the request whose
  (destination repository, arch) no triple of \<^verbatim>\<open>originrepos\<close> has is dropped, with one
  warning in the log. Every other triple keeps its source repository and its arch, and its
  destination repository becomes the source repository of the incident's triple for that
  (destination repository, arch).
\<close>

theorem incident_remap_rewrites_destination_repo:
  assumes "maintenance_search api dst_project = Some mproject"
      and "get_originproject api dst_project (package dst_srcinfo) = None"
      and "get_linktarget api dst_project (package dst_srcinfo) = (Some dst_project, Some linkpkg)"
      and "incident_of linkpkg = Some incident"
      and "get_sourceinfo api (incident_project mproject incident)
             (incident_package (package dst_srcinfo) dst_project) None = Some origin_srcinfo"
      and "findrepos api (incident_project mproject incident) origin_srcinfo dst_project dst_srcinfo lg
             = (Inr (Some originrepos), lg1)"
  shows "(\<exists>matchrepos.
            maintenance_hack api dst_project dst_srcinfo myrepos lg =
              (Inr (Some (incident_project mproject incident),
                    Some (incident_package (package dst_srcinfo) dst_project),
                    origin_srcinfo, matchrepos),
               lg1 @ map (unmapped_warning (incident_project mproject incident)
                            (incident_package (package dst_srcinfo) dst_project))
                       (filter (\<lambda>mr. remapped originrepos mr = None) myrepos))
            \<and> set matchrepos = {m. \<exists>mr\<in>set myrepos. remapped originrepos mr = Some m})
       \<and> (\<forall>mr. (remapped originrepos mr = None) =
                  (\<forall>origin\<in>set originrepos. (dstrepo origin, arch origin) \<noteq> (dstrepo mr, arch mr)))
       \<and> (\<forall>mr m. remapped originrepos mr = Some m \<longrightarrow>
                  srcrepo m = srcrepo mr \<and> arch m = arch mr
                  \<and> (\<exists>origin\<in>set originrepos. dstrepo origin = dstrepo mr \<and> arch origin = arch mr
                        \<and> dstrepo m = srcrepo origin))"
proof -
  obtain ms lg2 where r: "remap_repos (mapped_of originrepos) (incident_project mproject incident)
             (incident_package (package dst_srcinfo) dst_project) myrepos ([], lg1) = (ms, lg2)"
    by (cases "remap_repos (mapped_of originrepos) (incident_project mproject incident)
             (incident_package (package dst_srcinfo) dst_project) myrepos ([], lg1)")
  from maintenance_hack_incident [OF assms, of myrepos] r
  have "maintenance_hack api dst_project dst_srcinfo myrepos lg =
      (Inr (Some (incident_project mproject incident),
            Some (incident_package (package dst_srcinfo) dst_project), origin_srcinfo, ms), lg2)"
    by simp
  with remap_repos_run [OF r] have a: "\<exists>matchrepos.
            maintenance_hack api dst_project dst_srcinfo myrepos lg =
              (Inr (Some (incident_project mproject incident),
                    Some (incident_package (package dst_srcinfo) dst_project),
                    origin_srcinfo, matchrepos),
               lg1 @ map (unmapped_warning (incident_project mproject incident)
                            (incident_package (package dst_srcinfo) dst_project))
                       (filter (\<lambda>mr. remapped originrepos mr = None) myrepos))
            \<and> set matchrepos = {m. \<exists>mr\<in>set myrepos. remapped originrepos mr = Some m}"
    by simp
  have b: "\<forall>mr. (remapped originrepos mr = None) =
                  (\<forall>origin\<in>set originrepos. (dstrepo origin, arch origin) \<noteq> (dstrepo mr, arch mr))"
    by (simp add: remapped_def mapped_of_None)
  have c: "\<forall>mr m. remapped originrepos mr = Some m \<longrightarrow>
                  srcrepo m = srcrepo mr \<and> arch m = arch mr
                  \<and> (\<exists>origin\<in>set originrepos. dstrepo origin = dstrepo mr \<and> arch origin = arch mr
                        \<and> dstrepo m = srcrepo origin)"
    using mapped_of_Some by (fastforce simp: remapped_def)
  from a b c show ?thesis by blast
qed

lemma c9_findrepos:
  "findrepos c9_api ''SUSE:Maintenance:1234'' c9_origin ''SUSE:SLE-12:Update'' c9_dst []
     = (Inr (Some [MR ''SUSE_SLE-12_Update'' ''standard'' ''x86_64'']), [])"
  by (simp add: findrepos_def c9_api_def no_obs_def c9_origin_def c9_dst_def ensure_settled_def
        build_rmap_def set_add_def Let_def)

lemma c9_incident: "incident_of ''libfoo.1234'' = Some ''1234''"
  by (simp add: incident_of_def is_digit_def Let_def)

lemma c9_remapped:
  "remapped [MR ''SUSE_SLE-12_Update'' ''standard'' ''x86_64''] (MR ''SLE_12'' ''standard'' ''x86_64'')
     = Some (MR ''SLE_12'' ''SUSE_SLE-12_Update'' ''x86_64'')"
  "remapped [MR ''SUSE_SLE-12_Update'' ''standard'' ''x86_64''] (MR ''SLE_12'' ''standard'' ''s390x'')
     = None"
  by (simp_all add: remapped_def mapped_of_def)

lemma c9_names:
  "incident_project ''SUSE:Maintenance'' ''1234'' = ''SUSE:Maintenance:1234''"
  "incident_package (package c9_dst) ''SUSE:SLE-12:Update'' = ''libfoo.SUSE_SLE-12_Update''"
  by (simp_all add: incident_project_def incident_package_def c9_dst_def)

lemma c9_search: "maintenance_search c9_api ''SUSE:SLE-12:Update'' = Some ''SUSE:Maintenance''"
  by (simp add: c9_api_def no_obs_def)

lemma c9_no_origin: "get_originproject c9_api ''SUSE:SLE-12:Update'' (package c9_dst) = None"
  by (simp add: c9_api_def no_obs_def)

lemma c9_link:
  "get_linktarget c9_api ''SUSE:SLE-12:Update'' (package c9_dst)
     = (Some ''SUSE:SLE-12:Update'', Some ''libfoo.1234'')"
  by (simp add: c9_api_def no_obs_def)

lemma c9_sourceinfo:
  "get_sourceinfo c9_api (incident_project ''SUSE:Maintenance'' ''1234'')
     (incident_package (package c9_dst) ''SUSE:SLE-12:Update'') None = Some c9_origin"
  unfolding c9_names by (simp add: c9_api_def no_obs_def)

lemma c9_origin_repos:
  "findrepos c9_api (incident_project ''SUSE:Maintenance'' ''1234'') c9_origin
     ''SUSE:SLE-12:Update'' c9_dst []
   = (Inr (Some [MR ''SUSE_SLE-12_Update'' ''standard'' ''x86_64'']), [])"
  unfolding c9_names by (rule c9_findrepos)

text \<open>
  The incident above: the triple for \<^verbatim>\<open>x86_64\<close> is mapped, that for \<^verbatim>\<open>s390x\<close> is
  dropped with a warning.
\<close>

theorem incident_remap_rewrites_destination_repo_witness:
  "\<exists>matchrepos.
     maintenance_hack c9_api ''SUSE:SLE-12:Update'' c9_dst c9_myrepos [] =
       (Inr (Some ''SUSE:Maintenance:1234'', Some ''libfoo.SUSE_SLE-12_Update'', c9_origin, matchrepos),
        [(WARNING, ''couldn't find repo standard/s390x in SUSE:Maintenance:1234/libfoo.SUSE_SLE-12_Update'')])
     \<and> set matchrepos = {MR ''SLE_12'' ''SUSE_SLE-12_Update'' ''x86_64''}"
proof -
  have s: "{m. \<exists>mr\<in>set c9_myrepos.
              remapped [MR ''SUSE_SLE-12_Update'' ''standard'' ''x86_64''] mr = Some m}
           = {MR ''SLE_12'' ''SUSE_SLE-12_Update'' ''x86_64''}"
    by (auto simp: c9_myrepos_def c9_remapped)
  have f: "filter (\<lambda>mr. remapped [MR ''SUSE_SLE-12_Update'' ''standard'' ''x86_64''] mr = None) c9_myrepos
           = [MR ''SLE_12'' ''standard'' ''s390x'']"
    by (simp add: c9_myrepos_def c9_remapped)
  from incident_remap_rewrites_destination_repo
         [OF c9_search c9_no_origin c9_link c9_incident c9_sourceinfo c9_origin_repos, of c9_myrepos]
  show ?thesis
    unfolding c9_names s f by (simp add: unmapped_warning_def)
qed

text \<open>
  Claim C9 as stated fails: the source side of the triple \<^verbatim>\<open>(SLE_12, standard, x86_64)\<close>
  is not rewritten. The result is \<^verbatim>\<open>(SLE_12, SUSE_SLE-12_Update, x86_64)\<close>, not
  \<^verbatim>\<open>(SUSE_SLE-12_Update, standard, x86_64)\<close>.
\<close>

theorem incident_remap_keeps_source_repo:
  "fst (maintenance_hack c9_api ''SUSE:SLE-12:Update'' c9_dst
          [MR ''SLE_12'' ''standard'' ''x86_64''] [])
     = Inr (Some ''SUSE:Maintenance:1234'', Some ''libfoo.SUSE_SLE-12_Update'', c9_origin,
            [MR ''SLE_12'' ''SUSE_SLE-12_Update'' ''x86_64''])
   \<and> fst (maintenance_hack c9_api ''SUSE:SLE-12:Update'' c9_dst
          [MR ''SLE_12'' ''standard'' ''x86_64''] [])
     \<noteq> Inr (Some ''SUSE:Maintenance:1234'', Some ''libfoo.SUSE_SLE-12_Update'', c9_origin,
            [MR ''SUSE_SLE-12_Update'' ''standard'' ''x86_64''])"
  unfolding maintenance_hack_incident
              [OF c9_search c9_no_origin c9_link c9_incident c9_sourceinfo c9_origin_repos] c9_names
  by (simp add: mapped_of_def set_add_def)

section \<open>The blacklist of projects\<close>

text \<open>
  Claim C10: for a destination project of \<^verbatim>\<open>PROJECT_BLACKLIST\<close>,
  \<^verbatim>\<open>check_source_submission\<close> returns True at once. It logs the reason and changes
  nothing else: no report is appended and the summary stays as it was. The result is the
  same whatever the build service and the tools would answer, so none of them is asked.
\<close>

theorem blacklisted_project_is_accepted_unchecked:
  assumes "dst_project \<in> fst ` set PROJECT_BLACKLIST"
  shows "check_source_submission api t base_check src_project src_package src_rev (Some dst_project)
           dst_package b
         = (Inr (Some True), b\<lparr>logged := logged b @ [(INFO, ''abi-checker doesn't support SLE 11'')]\<rparr>)
       \<and> reports (snd (check_source_submission api t base_check src_project src_package src_rev
                          (Some dst_project) dst_package b)) = reports b
       \<and> check_source_submission api' t' base_check' src_project src_package src_rev (Some dst_project)
           dst_package b
         = check_source_submission api t base_check src_project src_package src_rev (Some dst_project)
             dst_package b"
proof -
  from assms have "map_of PROJECT_BLACKLIST dst_project = Some ''abi-checker doesn't support SLE 11''"
    by (auto simp: PROJECT_BLACKLIST_def)
  then show ?thesis by (simp add: check_source_submission_def)
qed

theorem blacklisted_project_is_accepted_unchecked_witness:
  "check_source_submission c1_api c3_tools [] ''home:dev'' ''libfoo'' None
     (Some ''SUSE:SLE-11-SP4:Update'') ''libfoo'' bot0
   = (Inr (Some True), bot0\<lparr>logged := [(INFO, ''abi-checker doesn't support SLE 11'')]\<rparr>)"
proof -
  have "''SUSE:SLE-11-SP4:Update'' \<in> fst ` set PROJECT_BLACKLIST"
    by (simp add: PROJECT_BLACKLIST_def)
  from blacklisted_project_is_accepted_unchecked [OF this, of c1_api c3_tools "[]" "''home:dev''"
         "''libfoo''" None "''libfoo''" bot0]
  show ?thesis by (simp add: bot0_def)
qed

section \<open>Persistence\<close>

lemma fold_max_ge: "a \<le> fold max ids (a::nat)"
  by (induction ids arbitrary: a) (auto intro: order_trans [OF max.cobounded2])

lemma fold_max_mem: "x \<in> set ids \<Longrightarrow> x \<le> fold max ids (a::nat)"
proof (induction ids arbitrary: a)
  case Nil
  then show ?case by simp
next
  case (Cons i ids)
  show ?case
  proof (cases "x = i")
    case True
    have "x \<le> max i a" using True by simp
    also have "\<dots> \<le> fold max ids (max i a)" by (rule fold_max_ge)
    finally show ?thesis by simp
  next
    case False
    with Cons show ?thesis by simp
  qed
qed

lemma next_id_fresh: "x \<in> set ids \<Longrightarrow> x < next_id ids"
  using fold_max_mem [of x ids 0] by (simp add: next_id_def)

lemma save_libreports_run:
  assumes "foldl (save_libreport web_url aid) (d, s) lrs = (d', s')"
  shows "abichecks d' = abichecks d \<and> requests d' = requests d
       \<and> (\<exists>rows. libreports d' = libreports d @ rows \<and> map to_libresult rows = lrs
              \<and> (\<forall>l\<in>set rows. lp_submission_id l = aid))"
  using assms
proof (induction lrs arbitrary: d s)
  case Nil
  then show ?case by simp
next
  case (Cons lr lrs)
  obtain d1 s1 where st: "save_libreport web_url aid (d, s) lr = (d1, s1)"
    by (cases "save_libreport web_url aid (d, s) lr")
  then have d1: "abichecks d1 = abichecks d" "requests d1 = requests d"
    "\<exists>row. libreports d1 = libreports d @ [row] \<and> to_libresult row = lr \<and> lp_submission_id row = aid"
    by (auto simp: save_libreport_def Let_def to_libresult_def)
  then obtain row where row: "libreports d1 = libreports d @ [row]" "to_libresult row = lr"
    "lp_submission_id row = aid" by blast
  from Cons.prems st have "foldl (save_libreport web_url aid) (d1, s1) lrs = (d', s')" by simp
  from Cons.IH [OF this] obtain rows where
    rows: "abichecks d' = abichecks d1" "requests d' = requests d1"
      "libreports d' = libreports d1 @ rows" "map to_libresult rows = lrs"
      "\<forall>l\<in>set rows. lp_submission_id l = aid" by blast
  with row have "libreports d' = libreports d @ (row # rows) \<and> map to_libresult (row # rows) = lr # lrs
       \<and> (\<forall>l\<in>set (row # rows). lp_submission_id l = aid)" by simp
  then have "\<exists>rows. libreports d' = libreports d @ rows \<and> map to_libresult rows = lr # lrs
       \<and> (\<forall>l\<in>set rows. lp_submission_id l = aid)" by (rule exI)
  with rows(1,2) d1(1,2) show ?case by simp
qed

lemma save_report_step:
  assumes "save_report web_url reqid (d, s) r = (d', s')"
  shows "requests d' = requests d
       \<and> (\<exists>a rows. abichecks d' = abichecks d @ [a]
             \<and> ac_id a = next_id (map ac_id (abichecks d)) \<and> ac_request_id a = reqid
             \<and> libreports d' = libreports d @ rows
             \<and> (\<forall>l\<in>set rows. lp_submission_id l = ac_id a)
             \<and> Report (ac_src_project a) (ac_src_package a) (ac_src_rev a) (ac_dst_project a)
                  (ac_dst_package a) (map to_libresult rows) (ac_result a) = stored_form r)"
proof (cases "rep_result r")
  case None
  with assms show ?thesis
    by (auto simp: save_report_def Let_def stored_form_def)
next
  case (Some res)
  let ?a = "ABICheck (next_id (map ac_id (abichecks d))) reqid
                       (rep_src_project r) (rep_src_package r) (rep_src_rev r)
                       (rep_dst_project r) (rep_dst_package r) (rep_result r)"
  from assms Some obtain s1 where
    "foldl (save_libreport web_url (ac_id ?a)) (d\<lparr>abichecks := abichecks d @ [?a]\<rparr>, s1) (rep_reports r)
       = (d', s')"
    by (auto simp: save_report_def Let_def split: if_splits)
  from save_libreports_run [OF this] obtain rows where
    "abichecks d' = abichecks d @ [?a]" "requests d' = requests d"
    "libreports d' = libreports d @ rows" "map to_libresult rows = rep_reports r"
    "\<forall>l\<in>set rows. lp_submission_id l = ac_id ?a" by auto
  with Some have "abichecks d' = abichecks d @ [?a]
             \<and> ac_id ?a = next_id (map ac_id (abichecks d)) \<and> ac_request_id ?a = reqid
             \<and> libreports d' = libreports d @ rows
             \<and> (\<forall>l\<in>set rows. lp_submission_id l = ac_id ?a)
             \<and> Report (ac_src_project ?a) (ac_src_package ?a) (ac_src_rev ?a) (ac_dst_project ?a)
                  (ac_dst_package ?a) (map to_libresult rows) (ac_result ?a) = stored_form r"
    by (simp add: stored_form_def)
  then have "\<exists>a rows. abichecks d' = abichecks d @ [a]
             \<and> ac_id a = next_id (map ac_id (abichecks d)) \<and> ac_request_id a = reqid
             \<and> libreports d' = libreports d @ rows
             \<and> (\<forall>l\<in>set rows. lp_submission_id l = ac_id a)
             \<and> Report (ac_src_project a) (ac_src_package a) (ac_src_rev a) (ac_dst_project a)
                  (ac_dst_package a) (map to_libresult rows) (ac_result a) = stored_form r"
    by (intro exI)
  with \<open>requests d' = requests d\<close> show ?thesis by simp
qed

lemma save_report_stored:
  assumes "save_report web_url reqid (d, s) r = (d', s')" and "refs_ok d"
  shows "stored_reports d' reqid = stored_reports d reqid @ [stored_form r]
       \<and> refs_ok d' \<and> requests d' = requests d
       \<and> (\<forall>a\<in>set (abichecks d'). a \<in> set (abichecks d) \<or> ac_request_id a = reqid)"
proof -
  from save_report_step [OF assms(1)] obtain a rows where
    st: "requests d' = requests d" "abichecks d' = abichecks d @ [a]"
      "ac_id a = next_id (map ac_id (abichecks d))" "ac_request_id a = reqid"
      "libreports d' = libreports d @ rows" "\<forall>l\<in>set rows. lp_submission_id l = ac_id a"
      "Report (ac_src_project a) (ac_src_package a) (ac_src_rev a) (ac_dst_project a)
         (ac_dst_package a) (map to_libresult rows) (ac_result a) = stored_form r"
    by blast
  have fresh: "\<forall>x\<in>set (abichecks d). ac_id x \<noteq> ac_id a"
    using next_id_fresh [of _ "map ac_id (abichecks d)"] st(3) by fastforce
  have old_libs: "\<forall>l\<in>set (libreports d). lp_submission_id l \<noteq> ac_id a"
    using assms(2) fresh by (auto simp: refs_ok_def)
  have new: "filter (\<lambda>l. lp_submission_id l = ac_id a) (libreports d') = rows"
    using st(5,6) old_libs by (simp add: filter_empty_conv)
  have old: "stored_report d' x = stored_report d x" if "x \<in> set (abichecks d)" for x
  proof -
    from that fresh have "ac_id x \<noteq> ac_id a" by blast
    with st(6) have "filter (\<lambda>l. lp_submission_id l = ac_id x) rows = []"
      by (auto simp: filter_empty_conv)
    with st(5) show ?thesis by (simp add: stored_report_def)
  qed
  have "stored_report d' a = stored_form r"
    using new st(7) by (simp add: stored_report_def)
  with old st(2,4) have "stored_reports d' reqid = stored_reports d reqid @ [stored_form r]"
    by (simp add: stored_reports_def)
  moreover have "refs_ok d'"
    using assms(2) st(2,5,6) by (auto simp: refs_ok_def)
  ultimately show ?thesis using st(1,2,4) by auto
qed

lemma save_reports_stored:
  assumes "save_reports web_url reqid rs (d, s) = (d', s')" and "refs_ok d"
  shows "stored_reports d' reqid = stored_reports d reqid @ map stored_form rs
       \<and> refs_ok d' \<and> requests d' = requests d
       \<and> (\<forall>a\<in>set (abichecks d'). a \<in> set (abichecks d) \<or> ac_request_id a = reqid)"
  using assms
proof (induction rs arbitrary: d s)
  case Nil
  then show ?case by (simp add: save_reports_def)
next
  case (Cons r rs)
  obtain d1 s1 where st: "save_report web_url reqid (d, s) r = (d1, s1)"
    by (cases "save_report web_url reqid (d, s) r")
  note one = save_report_stored [OF st Cons.prems(2)]
  from Cons.prems(1) st have "save_reports web_url reqid rs (d1, s1) = (d', s')"
    by (simp add: save_reports_def)
  from Cons.IH [OF this] one show ?case by auto
qed

lemma delete_abichecks_stored:
  assumes "refs_ok d"
  shows "stored_reports (delete_abichecks reqid d) reqid = []
       \<and> refs_ok (delete_abichecks reqid d)
       \<and> requests (delete_abichecks reqid d) = requests d
       \<and> set (abichecks (delete_abichecks reqid d)) \<subseteq> set (abichecks d)"
  using assms
  by (auto simp: delete_abichecks_def Let_def stored_reports_def refs_ok_def)

lemma db_wf_refs_ok: "db_wf d \<Longrightarrow> refs_ok d"
  by (simp add: db_wf_def refs_ok_def)

lemma save_reports_to_db_stored:
  assumes "db_wf d"
  shows "stored_reports (fst (save_reports_to_db web_url reqid state result (d, b))) reqid
           = map stored_form (reports b)
       \<and> db_wf (fst (save_reports_to_db web_url reqid state result (d, b)))"
proof -
  let ?d1 = "(case requests d reqid of
                  Some row \<Rightarrow> (delete_abichecks reqid d)\<lparr>requests := (requests d)(reqid \<mapsto> (state, result))\<rparr>
                | None \<Rightarrow> d\<lparr>requests := (requests d)(reqid \<mapsto> (state, result))\<rparr>)"
  obtain d2 s2 where sv: "save_reports web_url reqid (reports b) (?d1, text_summary b) = (d2, s2)"
    by (cases "save_reports web_url reqid (reports b) (?d1, text_summary b)")
  then have res: "fst (save_reports_to_db web_url reqid state result (d, b)) = d2"
    by (simp add: save_reports_to_db_def Let_def)
  note r = db_wf_refs_ok [OF assms]
  have d1: "stored_reports ?d1 reqid = [] \<and> refs_ok ?d1
            \<and> requests ?d1 = (requests d)(reqid \<mapsto> (state, result))
            \<and> set (abichecks ?d1) \<subseteq> set (abichecks d)"
  proof (cases "requests d reqid")
    case None
    have "\<forall>a\<in>set (abichecks d). ac_request_id a \<noteq> reqid"
      using assms None by (auto simp: db_wf_def)
    then have "stored_reports d reqid = []"
      by (simp add: stored_reports_def filter_empty_conv)
    with None r show ?thesis by (simp add: stored_reports_def refs_ok_def)
  next
    case (Some row)
    with delete_abichecks_stored [OF r, of reqid] show ?thesis
      by (simp add: stored_reports_def refs_ok_def stored_report_def)
  qed
  from save_reports_stored [OF sv] d1
  have d2: "stored_reports d2 reqid = map stored_form (reports b)" "refs_ok d2"
    "requests d2 = (requests d)(reqid \<mapsto> (state, result))"
    "\<forall>a\<in>set (abichecks d2). a \<in> set (abichecks ?d1) \<or> ac_request_id a = reqid"
    by simp_all
  have "\<forall>a\<in>set (abichecks d2). ac_request_id a \<in> dom (requests d2)"
  proof
    fix a assume "a \<in> set (abichecks d2)"
    with d2(4) d1 have "a \<in> set (abichecks d) \<or> ac_request_id a = reqid" by blast
    with assms d2(3) show "ac_request_id a \<in> dom (requests d2)" by (auto simp: db_wf_def)
  qed
  with d2(2) have "db_wf d2" by (simp add: db_wf_def refs_ok_def)
  with d2(1) res show ?thesis by simp
qed

text \<open>
  Claim C8: in a database whose foreign keys hold, \<^verbatim>\<open>save_reports_to_db\<close> leaves as
  the stored sub-reports of the request exactly the reports the bot holds, whatever was
  stored for the request before: the old rows are deleted with their \<^verbatim>\<open>LibReport\<close>
  rows, the new ones inserted. Persisting the same reports for the request once more
  leaves the same stored sub-reports as persisting them once. Rows are compared by their
  columns; the keys of re-inserted rows may differ.
\<close>

theorem persisting_twice_is_persisting_once:
  assumes "db_wf d" and "reports b' = reports b"
  shows "stored_reports (fst (save_reports_to_db web_url reqid state result (d, b))) reqid
           = map stored_form (reports b)
       \<and> stored_reports
           (fst (save_reports_to_db web_url' reqid state' result'
                   (fst (save_reports_to_db web_url reqid state result (d, b)), b'))) reqid
           = stored_reports (fst (save_reports_to_db web_url reqid state result (d, b))) reqid
       \<and> reports (snd (save_reports_to_db web_url reqid state result (d, b))) = []"
proof -
  note one = save_reports_to_db_stored [OF assms(1), of web_url reqid state result b]
  from one have "db_wf (fst (save_reports_to_db web_url reqid state result (d, b)))" by simp
  from save_reports_to_db_stored [OF this, of web_url' reqid state' result' b'] one assms(2)
  have "stored_reports
           (fst (save_reports_to_db web_url' reqid state' result'
                   (fst (save_reports_to_db web_url reqid state result (d, b)), b'))) reqid
           = stored_reports (fst (save_reports_to_db web_url reqid state result (d, b))) reqid"
    by simp
  moreover have "reports (snd (save_reports_to_db web_url reqid state result (d, b))) = []"
    by (simp add: save_reports_to_db_def Let_def split: prod.splits)
  ultimately show ?thesis using one by simp
qed

text \<open>
  Request 7 of the database above has a stale sub-report; after persisting the report of
  the bot once, and after persisting it twice, exactly that report is stored for it.
\<close>

theorem persisting_twice_is_persisting_once_witness:
  "stored_reports
     (fst (save_reports_to_db (Some ''https://abi.example.org'') 7 ''done'' (Some ''declined'')
             (fst (save_reports_to_db (Some ''https://abi.example.org'') 7 ''done'' (Some ''declined'')
                     (c8_db, c8_bot)), c8_bot))) 7
   = reports c8_bot
   \<and> stored_reports
     (fst (save_reports_to_db (Some ''https://abi.example.org'') 7 ''done'' (Some ''declined'')
             (c8_db, c8_bot))) 7
   = reports c8_bot"
proof -
  have wf: "db_wf c8_db" by (simp add: db_wf_def c8_db_def)
  have same: "map stored_form (reports c8_bot) = reports c8_bot"
    by (simp add: c8_bot_def stored_form_def)
  from persisting_twice_is_persisting_once [OF wf refl, of "Some ''https://abi.example.org''" 7
         "''done''" "Some ''declined''" c8_bot "Some ''https://abi.example.org''" "''done''"
         "Some ''declined''"] same
  show ?thesis by simp
qed

section \<open>The archive parser\<close>

lemma c6_length: "length c6_archive = 248"
  by (simp add: c6_archive_def newc_entry_def)

lemma CpioFile_init_raises:
  "(\<exists>msg. CpioFile_init int16 off buf = Inl (Exception msg))
   \<or> CpioFile_init int16 off buf = Inl StructError
   \<or> CpioFile_init int16 off buf = Inl (AttributeError ''c_magic'')"
  by (simp add: CpioFile_init_def Let_def)

lemma CpioFile_init_header:
  assumes "off mod 4 = 0" and "0 \<le> off" and "nat off + 110 \<le> length buf"
  shows "CpioFile_init int16 off buf = Inl (AttributeError ''c_magic'')"
proof -
  from assms have "length (py_slice buf off (off + 110)) = 110"
    by (simp add: py_slice_def clip_index_def Let_def min_def nat_add_distrib) arith
  with assms(1) show ?thesis by (simp add: CpioFile_init_def Let_def)
qed

lemma cpio_files_raises:
  assumes "CpioFile_init int16 off buf = Inl e"
  shows "Cpio_next int16 buf off = Inl e"
    and "e \<noteq> StopIteration \<Longrightarrow> cpio_files (Suc n) int16 buf off = Some (Inl e)"
  using assms by (auto simp: Cpio_next_def split: cpio_error.splits)

text \<open>
  Claim C6: iterating the parser over an archive of one file and the trailer yields that
  file. The code does not: under Python 3 the constructor of \<^verbatim>\<open>CpioFile\<close> compares the
  magic, a \<^verbatim>\<open>bytes\<close> object, with a \<^verbatim>\<open>str\<close> literal, finds them different and
  raises, so \<^verbatim>\<open>next\<close> raises AttributeError on the archive above and returns no file
  for any buffer at all. (The class also defines \<^verbatim>\<open>next\<close> where the iterator protocol of
  Python 3 asks for \<^verbatim>\<open>__next__\<close>, so a \<^verbatim>\<open>for\<close> loop over it raises TypeError before
  the first call.)
\<close>

theorem cpio_parser_yields_no_file:
  "Cpio_next int16 c6_archive 0 = Inl (AttributeError ''c_magic'')
   \<and> cpio_files (Suc n) int16 c6_archive 0 = Some (Inl (AttributeError ''c_magic''))
   \<and> (\<forall>buf off. \<exists>e. Cpio_next int16 buf off = Inl e \<and> e \<noteq> StopIteration
                      \<and> cpio_files (Suc n) int16 buf off = Some (Inl e))"
proof -
  have "CpioFile_init int16 0 c6_archive = Inl (AttributeError ''c_magic'')"
    by (rule CpioFile_init_header) (simp_all add: c6_length)
  from cpio_files_raises [OF this]
  have a: "Cpio_next int16 c6_archive 0 = Inl (AttributeError ''c_magic'')"
    "cpio_files (Suc n) int16 c6_archive 0 = Some (Inl (AttributeError ''c_magic''))"
    by simp_all
  have b: "\<exists>e. Cpio_next int16 buf off = Inl e \<and> e \<noteq> StopIteration
              \<and> cpio_files (Suc n) int16 buf off = Some (Inl e)" for buf off
    using CpioFile_init_raises [of int16 off buf] cpio_files_raises [of int16 off buf]
    by (elim disjE) auto
  from a b show ?thesis by blast
qed

end
